theory Spec2Isabelle
  imports Complex_Main
begin

section \<open>Numeric arrays\<close>

text \<open>
  The operations of \<^verbatim>\<open>simple_autodiff/ops\<close> work on numpy arrays. An array is a shape and a
  row-major buffer of elements; it is well formed when the buffer has as many elements as the
  shape says. The element type \<open>'a\<close> stands for float32 and every array function asks of it only
  the operations it uses; rounding is not modelled. The power of an element by a scalar is
  left to the library (see \<open>np_power\<close>), so nothing is said of the values it gives, infinities
  and NaN included.
\<close>

record 'a ndarray =
  shape :: "nat list"
  elems :: "'a list"

definition np_size :: "'a ndarray \<Rightarrow> nat" where
  "np_size a = prod_list (shape a)"

definition wf_array :: "'a ndarray \<Rightarrow> bool" where
  "wf_array a \<longleftrightarrow> length (elems a) = prod_list (shape a)"

text \<open>
  The exceptions of Python that the code can raise. \<open>OutsideModel\<close> is not one of them: it
  marks a call whose outcome rests on something left out here (an exponent that is no
  scalar, a Python scalar where an array is expected, an attribute of a Tensor), and no
  property below is drawn from it.
\<close>

datatype error =
    TypeError string
  | AssertionError
  | ValueError
  | IndexError
  | AttributeError
  | OutsideModel

subsection \<open>Broadcasting\<close>

text \<open>
  \<open>chunks n k xs\<close> cuts the first \<open>k\<close> blocks of \<open>n\<close> elements off \<open>xs\<close>;
  \<open>expand s t xs\<close> stretches a buffer of shape \<open>s\<close> to the shape \<open>t\<close> of the same rank, repeating
  along every axis where \<open>s\<close> has extent 1.
\<close>

fun chunks :: "nat \<Rightarrow> nat \<Rightarrow> 'a list \<Rightarrow> 'a list list" where
  "chunks n 0 xs = []"
| "chunks n (Suc k) xs = take n xs # chunks n k (drop n xs)"

fun expand :: "nat list \<Rightarrow> nat list \<Rightarrow> 'a list \<Rightarrow> 'a list" where
  "expand (s # ss) (t # ts) xs =
     (if s = t then concat (map (expand ss ts) (chunks (prod_list ss) s xs))
      else concat (replicate t (expand ss ts xs)))"
| "expand _ _ xs = xs"

fun can_expand :: "nat list \<Rightarrow> nat list \<Rightarrow> bool" where
  "can_expand [] [] = True"
| "can_expand (s # ss) (t # ts) = ((s = t \<or> s = 1) \<and> can_expand ss ts)"
| "can_expand _ _ = False"

definition pad :: "nat list \<Rightarrow> nat \<Rightarrow> nat list" where
  "pad s n = replicate (n - length s) 1 @ s"

fun bdims :: "nat list \<Rightarrow> nat list \<Rightarrow> nat list option" where
  "bdims [] ys = Some ys"
| "bdims xs [] = Some xs"
| "bdims (x # xs) (y # ys) =
     (if x = y \<or> y = 1 then map_option ((#) x) (bdims xs ys)
      else if x = 1 then map_option ((#) y) (bdims xs ys)
      else None)"

definition broadcast_shapes :: "nat list \<Rightarrow> nat list \<Rightarrow> nat list option" where
  "broadcast_shapes s t = map_option rev (bdims (rev s) (rev t))"

definition np_binop :: "('a \<Rightarrow> 'a \<Rightarrow> 'a) \<Rightarrow> 'a ndarray \<Rightarrow> 'a ndarray \<Rightarrow> error + 'a ndarray" where
  "np_binop f a b =
     (case broadcast_shapes (shape a) (shape b) of
        None \<Rightarrow> Inl ValueError
      | Some t \<Rightarrow>
          Inr \<lparr>shape = t,
               elems = map2 f (expand (pad (shape a) (length t)) t (elems a))
                              (expand (pad (shape b) (length t)) t (elems b))\<rparr>)"

definition np_add :: "'a::plus ndarray \<Rightarrow> 'a ndarray \<Rightarrow> error + 'a ndarray" where
  "np_add = np_binop (+)"

definition np_subtract :: "'a::minus ndarray \<Rightarrow> 'a ndarray \<Rightarrow> error + 'a ndarray" where
  "np_subtract = np_binop (-)"

definition np_multiply :: "'a::times ndarray \<Rightarrow> 'a ndarray \<Rightarrow> error + 'a ndarray" where
  "np_multiply = np_binop (*)"

definition np_negative :: "'a::uminus ndarray \<Rightarrow> 'a ndarray" where
  "np_negative a = a\<lparr>elems := map uminus (elems a)\<rparr>"







definition times_float :: "'a::times ndarray \<Rightarrow> 'a \<Rightarrow> 'a ndarray" where
  "times_float a f = a\<lparr>elems := map (\<lambda>x. x * f) (elems a)\<rparr>"

definition np_exp :: "'a::{real_normed_algebra_1,banach} ndarray \<Rightarrow> 'a ndarray" where
  "np_exp a = a\<lparr>elems := map exp (elems a)\<rparr>"

text \<open>\<^verbatim>\<open>np.sum\<close> over all axes gives a scalar, held here as an array of rank 0.\<close>

definition np_sum :: "'a::monoid_add ndarray \<Rightarrow> 'a ndarray" where
  "np_sum a = \<lparr>shape = [], elems = [sum_list (elems a)]\<rparr>"

text \<open>
  \<^verbatim>\<open>np.full(shape, fill)\<close> assigns \<open>fill\<close> into a new array: leading axes of extent 1 that
  \<open>fill\<close> has too many are dropped, the rest must broadcast to \<open>shape\<close>.
\<close>

fun strip_ones :: "nat list \<Rightarrow> nat \<Rightarrow> nat list" where
  "strip_ones [] n = []"
| "strip_ones (d # ds) n = (if n < Suc (length ds) \<and> d = 1 then strip_ones ds n else d # ds)"

definition np_full :: "nat list \<Rightarrow> 'a ndarray \<Rightarrow> error + 'a ndarray" where
  "np_full t fill =
     (let s = strip_ones (shape fill) (length t) in
      if length s \<le> length t \<and> can_expand (pad s (length t)) t
      then Inr \<lparr>shape = t, elems = expand (pad s (length t)) t (elems fill)\<rparr>
      else Inl ValueError)"

subsection \<open>Transpose and matrix product\<close>

fun unravel :: "nat list \<Rightarrow> nat \<Rightarrow> nat list" where
  "unravel [] i = []"
| "unravel (d # ds) i = (i div prod_list ds) # unravel ds (i mod prod_list ds)"

fun ravel :: "nat list \<Rightarrow> nat list \<Rightarrow> nat" where
  "ravel (d # ds) (i # is) = i * prod_list ds + ravel ds is"
| "ravel _ _ = 0"

text \<open>\<^verbatim>\<open>a.T\<close> reverses the axes.\<close>

definition np_T :: "'a ndarray \<Rightarrow> 'a ndarray" where
  "np_T a =
     \<lparr>shape = rev (shape a),
      elems = map (\<lambda>i. elems a ! ravel (shape a) (rev (unravel (rev (shape a)) i)))
                  [0 ..< prod_list (shape a)]\<rparr>"

definition mm2 :: "nat \<Rightarrow> nat \<Rightarrow> nat \<Rightarrow> 'a::semiring_0 list \<Rightarrow> 'a list \<Rightarrow> 'a list" where
  "mm2 m k n xs ys =
     concat (map (\<lambda>i. map (\<lambda>j. sum_list (map (\<lambda>l. xs ! (i * k + l) * ys ! (l * n + j)) [0 ..< k]))
                          [0 ..< n])
                 [0 ..< m])"

text \<open>
  \<^verbatim>\<open>np.matmul\<close>: scalars are refused, a vector is used as a row (left) or a column (right)
  and that axis is dropped from the result, the last axis of the left operand must equal the
  last but one of the right operand, and the leading axes are broadcast.
\<close>

definition np_matmul :: "'a::semiring_0 ndarray \<Rightarrow> 'a ndarray \<Rightarrow> error + 'a ndarray" where
  "np_matmul a b =
     (if shape a = [] \<or> shape b = [] then Inl ValueError
      else
        let sa = (if length (shape a) = 1 then 1 # shape a else shape a);
            sb = (if length (shape b) = 1 then shape b @ [1] else shape b);
            ba = butlast (butlast sa); m = last (butlast sa); k = last sa;
            bb = butlast (butlast sb); k' = last (butlast sb); n = last sb
        in if k \<noteq> k' then Inl ValueError
           else
             (case broadcast_shapes ba bb of
                None \<Rightarrow> Inl ValueError
              | Some bs \<Rightarrow>
                  let xs = expand (pad ba (length bs) @ [m, k]) (bs @ [m, k]) (elems a);
                      ys = expand (pad bb (length bs) @ [k, n]) (bs @ [k, n]) (elems b);
                      zs = concat (map2 (mm2 m k n) (chunks (m * k) (prod_list bs) xs)
                                                    (chunks (k * n) (prod_list bs) ys))
                  in Inr \<lparr>shape = bs @ (if length (shape a) = 1 then [] else [m])
                                     @ (if length (shape b) = 1 then [] else [n]),
                          elems = zs\<rparr>))"

section \<open>Python values, Tensors and the process state\<close>

text \<open>
  Arrays and Tensors are objects with identity: they live in two stores and are named by their
  position there. Nothing is ever freed, so a store only grows, and an object is new exactly
  when its address is not below the length of the store before.
\<close>

datatype 'a pyobj =
    PyNone
  | PyInt int
  | PyFloat 'a
  | PyTensor nat
  | PyArray nat
  | PyTuple "'a pyobj list"

type_synonym 'a heap = "'a ndarray list"

type_synonym 'a kwdict = "(string \<times> 'a pyobj) list"

definition alloc :: "'a ndarray \<Rightarrow> 'a heap \<Rightarrow> nat \<times> 'a heap" where
  "alloc a h = (length h, h @ [a])"

fun is_Tensor :: "'a pyobj \<Rightarrow> bool" where
  "is_Tensor (PyTensor t) = True"
| "is_Tensor _ = False"

fun is_tuple :: "'a pyobj \<Rightarrow> bool" where
  "is_tuple (PyTuple vs) = True"
| "is_tuple _ = False"

fun the_Tensor :: "'a pyobj \<Rightarrow> nat" where
  "the_Tensor (PyTensor t) = t"
| "the_Tensor _ = 0"



text \<open>
  Modelled from the spec: the class \<^verbatim>\<open>Tensor\<close> of \<^verbatim>\<open>simple_autodiff/tensor.py\<close>, which is not
  among the sources. A Tensor wraps a numeric array (\<open>data\<close>), has an optional accumulated
  gradient (\<open>grad\<close>, absent until a backward pass reaches it) and a display name.
\<close>

record tensor =
  data :: nat
  grad :: "nat option"
  name :: string

text \<open>
  A subclass of \<^verbatim>\<open>TensorOp\<close> is its name and its two methods \<^verbatim>\<open>_forward\<close> and \<^verbatim>\<open>_backward\<close>
  (fields \<open>u_forward\<close> and \<open>u_backward\<close>). Both work on the array store: \<^verbatim>\<open>_forward\<close> gets the
  addresses of its positional arguments and the keyword arguments and gives the address of
  the output and a cache; \<^verbatim>\<open>_backward\<close> gets the address of the upstream gradient, the cache
  and the keyword arguments.
\<close>

record 'a op_class =
  cls_name :: string
  u_forward :: "'a heap \<Rightarrow> nat list \<Rightarrow> 'a kwdict \<Rightarrow> (error + nat \<times> 'a pyobj) \<times> 'a heap"
  u_backward :: "'a heap \<Rightarrow> nat \<Rightarrow> 'a pyobj \<Rightarrow> 'a kwdict \<Rightarrow> (error + 'a pyobj) \<times> 'a heap"

text \<open>
  An Op instance: its class, \<^verbatim>\<open>self.name\<close> (field \<open>op_name\<close>), and the attributes \<^verbatim>\<open>self.cache\<close>
  and \<^verbatim>\<open>self.kwargs\<close>, which exist only once \<^verbatim>\<open>forward\<close> has set them.
\<close>

record 'a op_instance =
  op_cls :: "'a op_class"
  op_name :: string
  cache :: "'a pyobj option"
  kwargs :: "'a kwdict option"

text \<open>
  The process state: the class attribute \<^verbatim>\<open>TensorOp.op_count\<close>, the two stores, and the
  computation graph.

  Modelled from the spec: the computation graph kept by \<^verbatim>\<open>simple_autodiff/autodiff.py\<close>, which
  is not among the sources: a mapping from an output Tensor to the Op that made it and that
  Op's ordered input Tensors, to which every Op construction appends an entry.
\<close>

record 'a state =
  op_count :: nat
  arrays :: "'a heap"
  tensors :: "tensor list"
  graph :: "(nat \<times> 'a op_instance \<times> nat list) list"

text \<open>
  Modelled from the spec: \<^verbatim>\<open>Tensor(data, name=...)\<close> makes a new Tensor that wraps the array
  it is given, with no gradient.
\<close>

definition Tensor_init :: "nat \<Rightarrow> string \<Rightarrow> 'a state \<Rightarrow> nat \<times> 'a state" where
  "Tensor_init d n s =
     (length (tensors s), s\<lparr>tensors := tensors s @ [\<lparr>data = d, grad = None, name = n\<rparr>]\<rparr>)"

text \<open>
  Modelled from the spec: \<^verbatim>\<open>add_op_to_graph(op, input_tensors, output_tensor)\<close> of
  \<^verbatim>\<open>simple_autodiff/autodiff.py\<close> appends the entry for \<open>output_tensor\<close>.
\<close>

definition add_op_to_graph :: "'a op_instance \<Rightarrow> nat list \<Rightarrow> nat \<Rightarrow> 'a state \<Rightarrow> 'a state" where
  "add_op_to_graph op input_tensors output_tensor s =
     s\<lparr>graph := graph s @ [(output_tensor, op, input_tensors)]\<rparr>"

section \<open>TensorOp\<close>

text \<open>Python's \<^verbatim>\<open>str\<close> of a natural number.\<close>

fun string_of_nat :: "nat \<Rightarrow> string" where
  "string_of_nat n =
     (if n < 10 then [''0123456789'' ! n]
      else string_of_nat (n div 10) @ [''0123456789'' ! (n mod 10)])"

declare string_of_nat.simps [simp del]

definition get_unique_id :: "'a state \<Rightarrow> nat \<times> 'a state" where
  "get_unique_id s = (let s' = s\<lparr>op_count := op_count s + 1\<rparr> in (op_count s', s'))"

definition TensorOp_init :: "'a op_class \<Rightarrow> 'a state \<Rightarrow> 'a op_instance \<times> 'a state" where
  "TensorOp_init cls s =
     (let (unique_id, s') = get_unique_id s in
      (\<lparr>op_cls = cls,
        op_name = ''Op:'' @ cls_name cls @ '':'' @ string_of_nat unique_id,
        cache = None, kwargs = None\<rparr>, s'))"

text \<open>\<^verbatim>\<open>a.copy()\<close> and \<^verbatim>\<open>a.astype(np.float32)\<close> each make a new array with the elements of \<open>a\<close>.\<close>

definition ndarray_copy :: "nat \<Rightarrow> 'a heap \<Rightarrow> nat \<times> 'a heap" where
  "ndarray_copy r h = alloc (h ! r) h"

definition astype_float32 :: "nat \<Rightarrow> 'a heap \<Rightarrow> nat \<times> 'a heap" where
  "astype_float32 r h = alloc (h ! r) h"

text \<open>The loop of \<^verbatim>\<open>forward\<close> over the positional arguments.\<close>

fun copy_inputs :: "'a pyobj list \<Rightarrow> tensor list \<Rightarrow> 'a heap \<Rightarrow> (error + nat list) \<times> 'a heap" where
  "copy_inputs [] ts h = (Inr [], h)"
| "copy_inputs (x # xs) ts h =
     (case x of
        PyTensor t \<Rightarrow>
          (let (c, h1) = ndarray_copy (data (ts ! t)) h;
               (tensor_data, h2) = astype_float32 c h1
           in case copy_inputs xs ts h2 of
                (Inl e, h3) \<Rightarrow> (Inl e, h3)
              | (Inr input_tensor_data, h3) \<Rightarrow> (Inr (tensor_data # input_tensor_data), h3))
      | _ \<Rightarrow> (Inl (TypeError ''Illegal input type''), h))"

definition forward ::
  "'a op_instance \<Rightarrow> 'a pyobj list \<Rightarrow> 'a kwdict \<Rightarrow> 'a state
     \<Rightarrow> (error + 'a pyobj) \<times> 'a op_instance \<times> 'a state" where
  "forward self input_tensors kw s =
     (case copy_inputs input_tensors (tensors s) (arrays s) of
        (Inl e, h) \<Rightarrow> (Inl e, self, s\<lparr>arrays := h\<rparr>)
      | (Inr input_tensor_data, h) \<Rightarrow>
          (case u_forward (op_cls self) h input_tensor_data kw of
             (Inl e, h') \<Rightarrow> (Inl e, self, s\<lparr>arrays := h'\<rparr>)
           | (Inr (output_data, c), h') \<Rightarrow>
               (let self' = self\<lparr>cache := Some c, kwargs := Some kw\<rparr>;
                    (t, s') = Tensor_init output_data (cls_name (op_cls self)) (s\<lparr>arrays := h'\<rparr>)
                in (Inr (PyTensor t), self', s'))))"

text \<open>
  \<^verbatim>\<open>TensorOp.__new__\<close>, which is what the expression \<^verbatim>\<open>Cls(*input_tensors, **kwargs)\<close> runs.
  Its result is not an instance of the class, so Python does not call \<^verbatim>\<open>__init__\<close> a second
  time and the result of \<^verbatim>\<open>__new__\<close> is the value of the expression.
\<close>

definition TensorOp_new ::
  "'a op_class \<Rightarrow> 'a pyobj list \<Rightarrow> 'a kwdict \<Rightarrow> 'a state \<Rightarrow> (error + 'a pyobj) \<times> 'a state" where
  "TensorOp_new cls input_tensors kw s =
     (let (tensorop_instance, s1) = TensorOp_init cls s in
      case forward tensorop_instance input_tensors kw s1 of
        (Inl e, self', s2) \<Rightarrow> (Inl e, s2)
      | (Inr output_tensor, self', s2) \<Rightarrow>
          (let input_tensors' = filter is_Tensor input_tensors in
           if \<not> is_Tensor output_tensor
           then (Inl (TypeError ''Only Tensor objects can be added to tensor registry''), s2)
           else (Inr output_tensor,
                 add_op_to_graph self' (map the_Tensor input_tensors') (the_Tensor output_tensor) s2)))"

definition backward :: "'a op_instance \<Rightarrow> nat \<Rightarrow> 'a heap \<Rightarrow> (error + 'a pyobj) \<times> 'a heap" where
  "backward self upstream_grads h =
     (case cache self of
        None \<Rightarrow> (Inl AttributeError, h)
      | Some c \<Rightarrow>
          (case kwargs self of
             None \<Rightarrow> (Inl AttributeError, h)
           | Some kw \<Rightarrow>
               (case u_backward (op_cls self) h upstream_grads c kw of
                  (Inl e, h') \<Rightarrow> (Inl e, h')
                | (Inr grads, h') \<Rightarrow>
                    (if \<not> is_tuple grads
                     then (Inl (TypeError ''Must return tuple of grads wrt input tensors.''), h')
                     else (Inr grads, h')))))"

section \<open>The operations of \<^verbatim>\<open>maths.py\<close>\<close>

subsection \<open>Calling a method\<close>

text \<open>
  \<open>bind_args params defaults pos kw\<close> binds positional and keyword arguments to the parameters
  of a method (after \<^verbatim>\<open>self\<close>) the way a Python call does, and gives the values in the order of
  the parameters: a \<^verbatim>\<open>TypeError\<close> for too many positional arguments, for a keyword that is no
  parameter or is already bound by position, and for a parameter left without a value.
\<close>

definition bind_args ::
  "string list \<Rightarrow> 'a kwdict \<Rightarrow> 'a pyobj list \<Rightarrow> 'a kwdict \<Rightarrow> error + 'a pyobj list" where
  "bind_args params defaults pos kw =
     (let rest = drop (length pos) params in
      if length params < length pos
      then Inl (TypeError ''too many positional arguments'')
      else if list_ex (\<lambda>k. k \<notin> set rest) (map fst kw)
      then Inl (TypeError ''unexpected keyword argument or multiple values'')
      else if list_ex (\<lambda>p. map_of kw p = None \<and> map_of defaults p = None) rest
      then Inl (TypeError ''missing required argument'')
      else Inr (pos @ map (\<lambda>p. case map_of kw p of Some v \<Rightarrow> v
                                 | None \<Rightarrow> the (map_of defaults p)) rest))"

definition on_ok :: "error + 'b \<Rightarrow> 'h \<Rightarrow> ('b \<Rightarrow> (error + 'c) \<times> 'h) \<Rightarrow> (error + 'c) \<times> 'h" where
  "on_ok r h f = (case r of Inl e \<Rightarrow> (Inl e, h) | Inr v \<Rightarrow> f v)"

text \<open>
  Reading an array attribute (\<^verbatim>\<open>.shape\<close>, \<^verbatim>\<open>.size\<close>, \<^verbatim>\<open>.T\<close>) of a value: an array has it, a
  Python scalar, tuple or \<^verbatim>\<open>None\<close> has not, and what a Tensor has is not known here.
\<close>

fun as_array :: "'a pyobj \<Rightarrow> error + nat" where
  "as_array (PyArray r) = Inr r"
| "as_array (PyTensor t) = Inl OutsideModel"
| "as_array _ = Inl AttributeError"

text \<open>\<^verbatim>\<open>x, y = v\<close>\<close>

fun unpack2 :: "'a pyobj \<Rightarrow> error + 'a pyobj \<times> 'a pyobj" where
  "unpack2 (PyTuple [x, y]) = Inr (x, y)"
| "unpack2 (PyTuple vs) = Inl ValueError"
| "unpack2 (PyArray r) = Inl OutsideModel"
| "unpack2 (PyTensor t) = Inl OutsideModel"
| "unpack2 _ = Inl (TypeError ''cannot unpack non-iterable object'')"

text \<open>The tuple \<^verbatim>\<open>a.shape\<close>, and reading a value as the shape argument of \<^verbatim>\<open>np.full\<close>.\<close>

definition shape_tuple :: "nat list \<Rightarrow> 'a pyobj" where
  "shape_tuple ds = PyTuple (map (\<lambda>d. PyInt (int d)) ds)"

fun is_int :: "'a pyobj \<Rightarrow> bool" where
  "is_int (PyInt n) = True"
| "is_int _ = False"

fun the_int :: "'a pyobj \<Rightarrow> int" where
  "the_int (PyInt n) = n"
| "the_int _ = 0"

definition dims_of :: "'a pyobj list \<Rightarrow> error + nat list" where
  "dims_of vs =
     (if \<not> list_all is_int vs then Inl (TypeError ''shape must be integers'')
      else if list_ex (\<lambda>v. the_int v < 0) vs then Inl ValueError
      else Inr (map (\<lambda>v. nat (the_int v)) vs))"

fun shape_arg :: "'a pyobj \<Rightarrow> error + nat list" where
  "shape_arg (PyTuple vs) = dims_of vs"
| "shape_arg (PyInt n) = (if n < 0 then Inl ValueError else Inr [nat n])"
| "shape_arg (PyArray r) = Inl OutsideModel"
| "shape_arg (PyTensor t) = Inl OutsideModel"
| "shape_arg _ = Inl (TypeError ''shape must be integers'')"

subsection \<open>Add\<close>

definition Add_forward ::
  "'a::plus heap \<Rightarrow> nat list \<Rightarrow> 'a kwdict \<Rightarrow> (error + nat \<times> 'a pyobj) \<times> 'a heap" where
  "Add_forward h args kw =
     on_ok (bind_args [''tensor_data_1'', ''tensor_data_2''] [] (map PyArray args) kw) h (\<lambda>vs.
     on_ok (as_array (vs ! 0)) h (\<lambda>tensor_data_1.
     on_ok (as_array (vs ! 1)) h (\<lambda>tensor_data_2.
       if shape (h ! tensor_data_1) \<noteq> shape (h ! tensor_data_2) then (Inl AssertionError, h)
       else
         on_ok (np_add (h ! tensor_data_1) (h ! tensor_data_2)) h (\<lambda>output.
           let (r, h') = alloc output h in (Inr (r, PyTuple []), h')))))"

definition Add_backward ::
  "'a heap \<Rightarrow> nat \<Rightarrow> 'a pyobj \<Rightarrow> 'a kwdict \<Rightarrow> (error + 'a pyobj) \<times> 'a heap" where
  "Add_backward h upstream_grad c kw =
     on_ok (bind_args [''upstream_grad'', ''_''] [] [PyArray upstream_grad, c] kw) h (\<lambda>vs.
       (Inr (PyTuple [vs ! 0, vs ! 0]), h))"

definition Add :: "'a::plus op_class" where
  "Add = \<lparr>cls_name = ''Add'', u_forward = Add_forward, u_backward = Add_backward\<rparr>"

subsection \<open>Subtract\<close>

definition Subtract_forward ::
  "'a::minus heap \<Rightarrow> nat list \<Rightarrow> 'a kwdict \<Rightarrow> (error + nat \<times> 'a pyobj) \<times> 'a heap" where
  "Subtract_forward h args kw =
     on_ok (bind_args [''tensor_data_1'', ''tensor_data_2''] [] (map PyArray args) kw) h (\<lambda>vs.
     on_ok (as_array (vs ! 0)) h (\<lambda>tensor_data_1.
     on_ok (as_array (vs ! 1)) h (\<lambda>tensor_data_2.
       if shape (h ! tensor_data_1) \<noteq> shape (h ! tensor_data_2) then (Inl AssertionError, h)
       else
         on_ok (np_subtract (h ! tensor_data_1) (h ! tensor_data_2)) h (\<lambda>output.
           let (r, h') = alloc output h in (Inr (r, PyTuple []), h')))))"

definition Subtract_backward ::
  "'a::uminus heap \<Rightarrow> nat \<Rightarrow> 'a pyobj \<Rightarrow> 'a kwdict \<Rightarrow> (error + 'a pyobj) \<times> 'a heap" where
  "Subtract_backward h upstream_grad c kw =
     on_ok (bind_args [''upstream_grad'', ''_''] [] [PyArray upstream_grad, c] kw) h (\<lambda>vs.
       let (g, h') = alloc (np_negative (h ! upstream_grad)) h
       in (Inr (PyTuple [vs ! 0, PyArray g]), h'))"

definition Subtract :: "'a::{minus,uminus} op_class" where
  "Subtract =
     \<lparr>cls_name = ''Subtract'', u_forward = Subtract_forward, u_backward = Subtract_backward\<rparr>"

subsection \<open>Power\<close>




subsection \<open>Exp\<close>

definition Exp_forward ::
  "'a::{real_normed_algebra_1,banach} heap \<Rightarrow> nat list \<Rightarrow> 'a kwdict
     \<Rightarrow> (error + nat \<times> 'a pyobj) \<times> 'a heap" where
  "Exp_forward h args kw =
     on_ok (bind_args [''tensor_data''] [] (map PyArray args) kw) h (\<lambda>vs.
       case vs ! 0 of
         PyArray tensor_data \<Rightarrow>
           (let (output, h') = alloc (np_exp (h ! tensor_data)) h
            in (Inr (output, PyArray output), h'))
       | _ \<Rightarrow> (Inl OutsideModel, h))"

definition Exp_backward ::
  "'a::times heap \<Rightarrow> nat \<Rightarrow> 'a pyobj \<Rightarrow> 'a kwdict \<Rightarrow> (error + 'a pyobj) \<times> 'a heap" where
  "Exp_backward h upstream_grad c kw =
     on_ok (bind_args [''upstream_grad'', ''output''] [] [PyArray upstream_grad, c] kw) h (\<lambda>vs.
       case vs ! 1 of
         PyArray output \<Rightarrow>
           on_ok (np_multiply (h ! output) (h ! upstream_grad)) h (\<lambda>g.
             let (r, h') = alloc g h in (Inr (PyTuple [PyArray r]), h'))
       | _ \<Rightarrow> (Inl OutsideModel, h))"

definition Exp :: "'a::{real_normed_algebra_1,banach} op_class" where
  "Exp = \<lparr>cls_name = ''Exp'', u_forward = Exp_forward, u_backward = Exp_backward\<rparr>"

subsection \<open>MatMul\<close>

definition MatMul_forward ::
  "'a::semiring_0 heap \<Rightarrow> nat list \<Rightarrow> 'a kwdict \<Rightarrow> (error + nat \<times> 'a pyobj) \<times> 'a heap" where
  "MatMul_forward h args kw =
     on_ok (bind_args [''tensor_data_1'', ''tensor_data_2''] [] (map PyArray args) kw) h (\<lambda>vs.
     on_ok (as_array (vs ! 0)) h (\<lambda>tensor_data_1.
       if shape (h ! tensor_data_1) = [] then (Inl IndexError, h)
       else
     on_ok (as_array (vs ! 1)) h (\<lambda>tensor_data_2.
       if shape (h ! tensor_data_2) = [] then (Inl IndexError, h)
       else if last (shape (h ! tensor_data_1)) \<noteq> hd (shape (h ! tensor_data_2))
       then (Inl AssertionError, h)
       else
         on_ok (np_matmul (h ! tensor_data_1) (h ! tensor_data_2)) h (\<lambda>output.
           let (r, h') = alloc output h;
               c = PyTuple [PyArray tensor_data_1, PyArray tensor_data_2]
           in (Inr (r, c), h')))))"

definition MatMul_backward ::
  "'a::semiring_0 heap \<Rightarrow> nat \<Rightarrow> 'a pyobj \<Rightarrow> 'a kwdict \<Rightarrow> (error + 'a pyobj) \<times> 'a heap" where
  "MatMul_backward h upstream_grad c kw =
     on_ok (bind_args [''upstream_grad'', ''cache''] [] [PyArray upstream_grad, c] kw) h (\<lambda>vs.
     on_ok (unpack2 (vs ! 1)) h (\<lambda>(v1, v2).
     on_ok (as_array v2) h (\<lambda>tensor_data_2.
     on_ok (np_matmul (h ! upstream_grad) (np_T (h ! tensor_data_2))) h (\<lambda>g1.
       let (tensor_1_grads, h1) = alloc g1 h in
     on_ok (as_array v1) h1 (\<lambda>tensor_data_1.
     on_ok (np_matmul (np_T (h1 ! tensor_data_1)) (h1 ! upstream_grad)) h1 (\<lambda>g2.
       let (tensor_2_grads, h2) = alloc g2 h1
       in (Inr (PyTuple [PyArray tensor_1_grads, PyArray tensor_2_grads]), h2)))))))"

definition MatMul :: "'a::semiring_0 op_class" where
  "MatMul = \<lparr>cls_name = ''MatMul'', u_forward = MatMul_forward, u_backward = MatMul_backward\<rparr>"

subsection \<open>Sum\<close>

definition Sum_forward ::
  "'a::monoid_add heap \<Rightarrow> nat list \<Rightarrow> 'a kwdict \<Rightarrow> (error + nat \<times> 'a pyobj) \<times> 'a heap" where
  "Sum_forward h args kw =
     on_ok (bind_args [''tensor_data''] [] (map PyArray args) kw) h (\<lambda>vs.
       case vs ! 0 of
         PyArray tensor_data \<Rightarrow>
           (let (r, h') = alloc (np_sum (h ! tensor_data)) h
            in (Inr (r, shape_tuple (shape (h ! tensor_data))), h'))
       | _ \<Rightarrow> (Inl OutsideModel, h))"

definition Sum_backward ::
  "'a heap \<Rightarrow> nat \<Rightarrow> 'a pyobj \<Rightarrow> 'a kwdict \<Rightarrow> (error + 'a pyobj) \<times> 'a heap" where
  "Sum_backward h upstream_grad c kw =
     on_ok (bind_args [''upstream_grad'', ''tensor_shape''] [] [PyArray upstream_grad, c] kw) h (\<lambda>vs.
     on_ok (shape_arg (vs ! 1)) h (\<lambda>tensor_shape.
     on_ok (np_full tensor_shape (h ! upstream_grad)) h (\<lambda>grad.
       let (r, h') = alloc grad h in (Inr (PyTuple [PyArray r]), h'))))"

definition Sum :: "'a::monoid_add op_class" where
  "Sum = \<lparr>cls_name = ''Sum'', u_forward = Sum_forward, u_backward = Sum_backward\<rparr>"

subsection \<open>Mean\<close>

definition Mean_forward ::
  "'a::{inverse,semiring_1} heap \<Rightarrow> nat list \<Rightarrow> 'a kwdict \<Rightarrow> (error + nat \<times> 'a pyobj) \<times> 'a heap" where
  "Mean_forward h args kw =
     on_ok (bind_args [''tensor_data''] [] (map PyArray args) kw) h (\<lambda>vs.
     on_ok (as_array (vs ! 0)) h (\<lambda>tensor_data.
       if \<not> 0 < np_size (h ! tensor_data) then (Inl AssertionError, h)
       else
         let tensor_shape = shape_tuple (shape (h ! tensor_data));
             factor = 1 / of_nat (np_size (h ! tensor_data));
             (output, h') = alloc (times_float (np_sum (h ! tensor_data)) factor) h;
             c = PyTuple [tensor_shape, PyFloat factor]
         in (Inr (output, c), h')))"

definition Mean_backward ::
  "'a::times heap \<Rightarrow> nat \<Rightarrow> 'a pyobj \<Rightarrow> 'a kwdict \<Rightarrow> (error + 'a pyobj) \<times> 'a heap" where
  "Mean_backward h upstream_grad c kw =
     on_ok (bind_args [''upstream_grad'', ''cache''] [] [PyArray upstream_grad, c] kw) h (\<lambda>vs.
     on_ok (unpack2 (vs ! 1)) h (\<lambda>(tensor_shape, factor).
     on_ok (shape_arg tensor_shape) h (\<lambda>ds.
     on_ok (np_full ds (h ! upstream_grad)) h (\<lambda>full.
       case factor of
         PyFloat f \<Rightarrow>
           (let (r, h') = alloc (times_float full f) h in (Inr (PyTuple [PyArray r]), h'))
       | _ \<Rightarrow> (Inl OutsideModel, h)))))"

definition Mean :: "'a::{inverse,semiring_1} op_class" where
  "Mean = \<lparr>cls_name = ''Mean'', u_forward = Mean_forward, u_backward = Mean_backward\<rparr>"

section \<open>Notions used to state the properties\<close>

text \<open>The array a Tensor of the state wraps, and what it means for a Tensor to be in the state.\<close>

definition tensor_array :: "'a state \<Rightarrow> nat \<Rightarrow> 'a ndarray" where
  "tensor_array s t = arrays s ! data (tensors s ! t)"

definition valid_tensor :: "'a state \<Rightarrow> nat \<Rightarrow> bool" where
  "valid_tensor s t \<longleftrightarrow> t < length (tensors s) \<and> data (tensors s ! t) < length (arrays s)"

text \<open>The addresses of the arrays a value holds.\<close>

fun refs :: "'a pyobj \<Rightarrow> nat list" where
  "refs (PyArray r) = [r]"
| "refs (PyTuple vs) = concat (map refs vs)"
| "refs _ = []"

definition kw_refs :: "'a kwdict \<Rightarrow> nat list" where
  "kw_refs kw = concat (map (\<lambda>(k, v). refs v) kw)"

text \<open>
  A \<^verbatim>\<open>_forward\<close> is local when it works on what it is given and nothing else: it writes only
  to arrays it received (as positional or keyword argument) or made itself, and every array in
  its output and cache is one of those.
\<close>

definition local_forward :: "'a op_class \<Rightarrow> bool" where
  "local_forward cls \<longleftrightarrow>
     (\<forall>h args kw r h'. u_forward cls h args kw = (r, h') \<longrightarrow>
        length h \<le> length h' \<and>
        (\<forall>a < length h. a \<notin> set args \<and> a \<notin> set (kw_refs kw) \<longrightarrow> h' ! a = h ! a) \<and>
        (\<forall>output c. r = Inr (output, c) \<longrightarrow>
           (\<forall>a \<in> set (output # refs c). a \<in> set args \<or> a \<in> set (kw_refs kw) \<or> length h \<le> a)))"

text \<open>
  An invocation with result \<open>r\<close> from state \<open>s\<close> failed without a trace in the graph and the
  Tensors: an error came out, the graph and the Tensors are as before, the arrays of before are
  as before, and the counter of Ops has moved by one.
\<close>

definition fails_unregistered :: "(error + 'a pyobj) \<times> 'a state \<Rightarrow> 'a state \<Rightarrow> bool" where
  "fails_unregistered r s \<longleftrightarrow>
     isl (fst r) \<and> graph (snd r) = graph s \<and> tensors (snd r) = tensors s \<and>
     take (length (arrays s)) (arrays (snd r)) = arrays s \<and>
     op_count (snd r) = op_count s + 1"

text \<open>
  The graph with each Op shown by its name, cache and keyword arguments, and the Op of the
  entry registered last.
\<close>

definition registered ::
  "'a state \<Rightarrow> (nat \<times> string \<times> 'a pyobj option \<times> 'a kwdict option \<times> nat list) list" where
  "registered s = map (\<lambda>(t, self, ins). (t, op_name self, cache self, kwargs self, ins)) (graph s)"

definition last_op :: "'a state \<Rightarrow> 'a op_instance" where
  "last_op s = fst (snd (last (graph s)))"

section \<open>Example inputs\<close>

text \<open>
  A state with four Tensors (two matrices of shape (2,2), one of shape (2,3), an empty one of
  shape (0,3)) and three more arrays to serve as upstream gradients: a scalar and arrays of
  ones of shape (2,3) and (2,2).
\<close>

definition demo_state :: "real state" where
  "demo_state =
     \<lparr>op_count = 0,
      arrays = [\<lparr>shape = [2, 2], elems = [1, 2, 3, 4]\<rparr>,
                \<lparr>shape = [2, 2], elems = [5, 6, 7, 8]\<rparr>,
                \<lparr>shape = [2, 3], elems = [1, 2, 3, 4, 5, 6]\<rparr>,
                \<lparr>shape = [0, 3], elems = []\<rparr>,
                \<lparr>shape = [], elems = [1]\<rparr>,
                \<lparr>shape = [2, 3], elems = [1, 1, 1, 1, 1, 1]\<rparr>,
                \<lparr>shape = [2, 2], elems = [1, 1, 1, 1]\<rparr>],
      tensors = [\<lparr>data = 0, grad = None, name = ''a''\<rparr>,
                 \<lparr>data = 1, grad = None, name = ''b''\<rparr>,
                 \<lparr>data = 2, grad = None, name = ''c''\<rparr>,
                 \<lparr>data = 3, grad = None, name = ''d''\<rparr>],
      graph = []\<rparr>"





text \<open>
  Another subclass a user could write: \<^verbatim>\<open>_forward\<close> as in \<^verbatim>\<open>Add\<close>, and a \<^verbatim>\<open>_backward\<close> that returns
  \<^verbatim>\<open>(upstream_grad,)\<close>, one gradient for two inputs.
\<close>

definition Lopsided_backward ::
  "'a heap \<Rightarrow> nat \<Rightarrow> 'a pyobj \<Rightarrow> 'a kwdict \<Rightarrow> (error + 'a pyobj) \<times> 'a heap" where
  "Lopsided_backward h upstream_grad c kw =
     on_ok (bind_args [''upstream_grad'', ''_''] [] [PyArray upstream_grad, c] kw) h (\<lambda>vs.
       (Inr (PyTuple [vs ! 0]), h))"

definition Lopsided :: "'a::plus op_class" where
  "Lopsided =
     \<lparr>cls_name = ''Lopsided'', u_forward = Add_forward, u_backward = Lopsided_backward\<rparr>"

section \<open>Facts about arrays\<close>

lemma concat_chunks: "length xs = k * n \<Longrightarrow> concat (chunks n k xs) = xs"
  by (induction k arbitrary: xs) auto

lemma chunks_lengths: "length xs = k * n \<Longrightarrow> c \<in> set (chunks n k xs) \<Longrightarrow> length c = n"
proof (induction k arbitrary: xs)
  case 0
  then show ?case by simp
next
  case (Suc k)
  from Suc.prems(2) have "c = take n xs \<or> c \<in> set (chunks n k (drop n xs))" by simp
  then show ?case
  proof
    assume "c = take n xs"
    then show ?thesis using Suc.prems(1) by simp
  next
    assume mem: "c \<in> set (chunks n k (drop n xs))"
    have "length (drop n xs) = k * n" using Suc.prems(1) by simp
    then show ?thesis using mem by (rule Suc.IH)
  qed
qed

lemma concat_replicate_replicate: "concat (replicate d (replicate m x)) = replicate (d * m) x"
  by (induction d) (simp_all add: replicate_add)

lemma expand_same: "length xs = prod_list s \<Longrightarrow> expand s s xs = xs"
proof (induction s arbitrary: xs)
  case Nil
  then show ?case by simp
next
  case (Cons d ds)
  have len: "length xs = d * prod_list ds" using Cons.prems by simp
  have "map (expand ds ds) (chunks (prod_list ds) d xs) = chunks (prod_list ds) d xs"
    by (rule map_idI) (simp add: Cons.IH chunks_lengths [OF len])
  then show ?case by (simp add: concat_chunks [OF len])
qed

lemma bdims_same: "bdims xs xs = Some xs"
  by (induction xs) auto

lemma broadcast_shapes_same: "broadcast_shapes s s = Some s"
  by (simp add: broadcast_shapes_def bdims_same)

lemma pad_same: "pad s (length s) = s"
  by (simp add: pad_def)

lemma np_binop_same_shape:
  "wf_array a \<Longrightarrow> wf_array b \<Longrightarrow> shape a = shape b \<Longrightarrow>
   np_binop f a b = Inr \<lparr>shape = shape a, elems = map2 f (elems a) (elems b)\<rparr>"
  by (simp add: np_binop_def broadcast_shapes_same pad_same expand_same wf_array_def)

lemma expand_scalar: "expand (replicate (length t) (Suc 0)) t [x] = replicate (prod_list t) x"
proof (induction t)
  case Nil
  then show ?case by simp
next
  case (Cons d ds)
  show ?case
  proof (cases "d = 1")
    case True
    then show ?thesis using Cons.IH by simp
  next
    case False
    then show ?thesis using Cons.IH
      by (simp add: concat_replicate_replicate)
  qed
qed

lemma can_expand_ones: "can_expand (replicate (length t) (Suc 0)) t"
  by (induction t) auto

lemma np_full_scalar:
  "shape u = [] \<Longrightarrow> elems u = [x] \<Longrightarrow>
   np_full t u = Inr \<lparr>shape = t, elems = replicate (prod_list t) x\<rparr>"
  by (simp add: np_full_def pad_def can_expand_ones expand_scalar)

lemma np_full_shape: "np_full t u = Inr g \<Longrightarrow> shape g = t"
  by (auto simp: np_full_def Let_def split: if_splits)

lemma np_matmul_2d:
  assumes "wf_array a" "wf_array b" "shape a = [m, k]" "shape b = [k, n]"
  shows "np_matmul a b = Inr \<lparr>shape = [m, n], elems = mm2 m k n (elems a) (elems b)\<rparr>"
proof -
  have xa: "expand [m, k] [m, k] (elems a) = elems a"
    by (rule expand_same) (use assms in \<open>simp add: wf_array_def\<close>)
  have xb: "expand [k, n] [k, n] (elems b) = elems b"
    by (rule expand_same) (use assms in \<open>simp add: wf_array_def\<close>)
  have la: "length (elems a) = m * k" and lb: "length (elems b) = k * n"
    using assms by (simp_all add: wf_array_def)
  show ?thesis
    using assms(3,4)
    by (simp add: np_matmul_def broadcast_shapes_def pad_def Let_def xa xb la lb
             del: expand.simps)
qed

lemma np_matmul_inner_mismatch:
  assumes "shape a \<noteq> []" "shape b \<noteq> []"
      and "last (shape a) \<noteq> (if length (shape b) = 1 then hd (shape b) else last (butlast (shape b)))"
  shows "np_matmul a b = Inl ValueError"
  using assms
  by (cases "shape b") (auto simp: np_matmul_def Let_def)

lemma shape_np_T: "shape (np_T a) = rev (shape a)"
  by (simp add: np_T_def)

lemma wf_np_T: "wf_array (np_T a)"
  by (simp add: np_T_def wf_array_def)

section \<open>Facts about the invocation protocol\<close>

lemma copy_inputs_bad:
  "\<not> list_all is_Tensor xs \<Longrightarrow> fst (copy_inputs xs T h) = Inl (TypeError ''Illegal input type'')"
proof (induction xs arbitrary: h)
  case Nil
  then show ?case by simp
next
  case (Cons x xs)
  show ?case
  proof (cases x)
    case (PyTensor t)
    with Cons.prems have "\<not> list_all is_Tensor xs" by simp
    then have "fst (copy_inputs xs T (h @ [h ! data (T ! t), h ! data (T ! t)]))
                 = Inl (TypeError ''Illegal input type'')"
      by (rule Cons.IH)
    then show ?thesis using PyTensor
      by (auto simp add: ndarray_copy_def astype_float32_def alloc_def nth_append split: prod.splits sum.splits)
  qed simp_all
qed


lemma copy_inputs_1:
  "copy_inputs [PyTensor t] T h = (Inr [Suc (length h)], h @ [h ! data (T ! t), h ! data (T ! t)])"
  by (simp add: ndarray_copy_def astype_float32_def alloc_def nth_append)

lemma copy_inputs_2:
  "data (T ! t2) < length h \<Longrightarrow>
   copy_inputs [PyTensor t1, PyTensor t2] T h =
     (Inr [Suc (length h), Suc (Suc (Suc (length h)))],
      h @ [h ! data (T ! t1), h ! data (T ! t1), h ! data (T ! t2), h ! data (T ! t2)])"
  by (simp add: ndarray_copy_def astype_float32_def alloc_def nth_append)

lemma TensorOp_new_completes:
  assumes "copy_inputs xs (tensors s) (arrays s) = (Inr ds, h)"
      and "u_forward cls h ds kw = (Inr (output, c), h')"
  shows "TensorOp_new cls xs kw s =
     (Inr (PyTensor (length (tensors s))),
      \<lparr>op_count = op_count s + 1, arrays = h',
       tensors = tensors s @ [\<lparr>data = output, grad = None, name = cls_name cls\<rparr>],
       graph = graph s @
         [(length (tensors s),
           \<lparr>op_cls = cls,
            op_name = ''Op:'' @ cls_name cls @ '':'' @ string_of_nat (op_count s + 1),
            cache = Some c, kwargs = Some kw\<rparr>,
           map the_Tensor (filter is_Tensor xs))]\<rparr>)"
  using assms
  by (simp add: TensorOp_new_def TensorOp_init_def get_unique_id_def forward_def Tensor_init_def
        add_op_to_graph_def Let_def)

lemma TensorOp_new_forward_raises:
  assumes "copy_inputs xs (tensors s) (arrays s) = (Inr ds, h)"
      and "u_forward cls h ds kw = (Inl e, h')"
  shows "TensorOp_new cls xs kw s = (Inl e, s\<lparr>op_count := op_count s + 1, arrays := h'\<rparr>)"
  using assms
  by (simp add: TensorOp_new_def TensorOp_init_def get_unique_id_def forward_def Let_def)

lemma TensorOp_new_bad_input:
  assumes "\<not> list_all is_Tensor xs"
  shows "TensorOp_new cls xs kw s =
     (Inl (TypeError ''Illegal input type''),
      s\<lparr>op_count := op_count s + 1, arrays := snd (copy_inputs xs (tensors s) (arrays s))\<rparr>)"
proof -
  obtain r h where ci: "copy_inputs xs (tensors s) (arrays s) = (r, h)" by fastforce
  with copy_inputs_bad [OF assms, of "tensors s" "arrays s"]
  have "r = Inl (TypeError ''Illegal input type'')" by simp
  with ci show ?thesis
    by (simp add: TensorOp_new_def TensorOp_init_def get_unique_id_def forward_def Let_def)
qed

lemma filter_tensors: "map the_Tensor (filter is_Tensor (map PyTensor ts)) = ts"
  by (induction ts) auto

section \<open>Facts about the operations\<close>

lemma bind_args_2: "bind_args [p1, p2] [] [a, b] [] = Inr [a, b]"
  by (simp add: bind_args_def)

lemma bind_args_1: "bind_args [p1] [] [a] [] = Inr [a]"
  by (simp add: bind_args_def)

lemma Add_forward_ok:
  assumes "wf_array (h ! r1)" "wf_array (h ! r2)" "shape (h ! r1) = shape (h ! r2)"
  shows "Add_forward h [r1, r2] [] =
    (Inr (length h, PyTuple []),
     h @ [\<lparr>shape = shape (h ! r1), elems = map2 (+) (elems (h ! r1)) (elems (h ! r2))\<rparr>])"
  using assms
  by (simp add: Add_forward_def bind_args_2 on_ok_def np_add_def np_binop_same_shape alloc_def)

lemma Add_forward_mismatch:
  assumes "shape (h ! r1) \<noteq> shape (h ! r2)"
  shows "Add_forward h [r1, r2] [] = (Inl AssertionError, h)"
  using assms by (simp add: Add_forward_def bind_args_2 on_ok_def)

lemma Add_backward_ok: "Add_backward h u c [] = (Inr (PyTuple [PyArray u, PyArray u]), h)"
  by (simp add: Add_backward_def bind_args_2 on_ok_def)

lemma Subtract_forward_mismatch:
  assumes "shape (h ! r1) \<noteq> shape (h ! r2)"
  shows "Subtract_forward h [r1, r2] [] = (Inl AssertionError, h)"
  using assms by (simp add: Subtract_forward_def bind_args_2 on_ok_def)






lemma MatMul_forward_ok:
  assumes "wf_array (h ! r1)" "wf_array (h ! r2)" "shape (h ! r1) = [m, k]" "shape (h ! r2) = [k, n]"
  shows "MatMul_forward h [r1, r2] [] =
    (Inr (length h, PyTuple [PyArray r1, PyArray r2]),
     h @ [\<lparr>shape = [m, n], elems = mm2 m k n (elems (h ! r1)) (elems (h ! r2))\<rparr>])"
  using assms
  by (simp add: MatMul_forward_def bind_args_2 on_ok_def np_matmul_2d alloc_def)

lemma MatMul_backward_ok:
  assumes "wf_array (h ! r1)" "wf_array (h ! r2)" "wf_array (h ! u)"
    and "shape (h ! r1) = [m, k]" "shape (h ! r2) = [k, n]" "shape (h ! u) = [m, n]"
    and "r1 < length h" "r2 < length h" "u < length h"
  shows "MatMul_backward h u (PyTuple [PyArray r1, PyArray r2]) [] =
    (Inr (PyTuple [PyArray (length h), PyArray (Suc (length h))]),
     h @ [\<lparr>shape = [m, k], elems = mm2 m n k (elems (h ! u)) (elems (np_T (h ! r2)))\<rparr>,
          \<lparr>shape = [k, n], elems = mm2 k m n (elems (np_T (h ! r1))) (elems (h ! u))\<rparr>])"
proof -
  have g1: "np_matmul (h ! u) (np_T (h ! r2)) =
      Inr \<lparr>shape = [m, k], elems = mm2 m n k (elems (h ! u)) (elems (np_T (h ! r2)))\<rparr>"
    by (rule np_matmul_2d) (use assms in \<open>simp_all add: wf_np_T shape_np_T\<close>)
  have g2: "np_matmul (np_T (h ! r1)) (h ! u) =
      Inr \<lparr>shape = [k, n], elems = mm2 k m n (elems (np_T (h ! r1))) (elems (h ! u))\<rparr>"
    by (rule np_matmul_2d) (use assms in \<open>simp_all add: wf_np_T shape_np_T\<close>)
  show ?thesis
    using assms(7-9)
    by (simp add: MatMul_backward_def bind_args_2 on_ok_def g1 g2 alloc_def nth_append)
qed

lemma shape_arg_shape_tuple: "shape_arg (shape_tuple ds) = Inr ds"
  by (simp add: shape_tuple_def dims_of_def list_all_iff list_ex_iff comp_def)

lemma Sum_forward_ok:
  "Sum_forward h [r] [] = (Inr (length h, shape_tuple (shape (h ! r))), h @ [np_sum (h ! r)])"
  by (simp add: Sum_forward_def bind_args_1 on_ok_def alloc_def)

lemma Sum_backward_ok:
  "Sum_backward h u (shape_tuple ds) [] =
     on_ok (np_full ds (h ! u)) h (\<lambda>g. (Inr (PyTuple [PyArray (length h)]), h @ [g]))"
  by (simp add: Sum_backward_def bind_args_2 on_ok_def shape_arg_shape_tuple alloc_def)

lemma Mean_forward_ok:
  assumes "0 < np_size (h ! r)"
  shows "Mean_forward h [r] [] =
    (Inr (length h, PyTuple [shape_tuple (shape (h ! r)), PyFloat (1 / of_nat (np_size (h ! r)))]),
     h @ [times_float (np_sum (h ! r)) (1 / of_nat (np_size (h ! r)))])"
  using assms by (simp add: Mean_forward_def bind_args_1 on_ok_def alloc_def Let_def)

lemma Mean_forward_empty:
  assumes "np_size (h ! r) = 0"
  shows "Mean_forward h [r] [] = (Inl AssertionError, h)"
  using assms by (simp add: Mean_forward_def bind_args_1 on_ok_def)

lemma Mean_backward_ok:
  "Mean_backward h u (PyTuple [shape_tuple ds, PyFloat f]) [] =
     on_ok (np_full ds (h ! u)) h
       (\<lambda>g. (Inr (PyTuple [PyArray (length h)]), h @ [times_float g f]))"
  by (simp add: Mean_backward_def bind_args_2 on_ok_def shape_arg_shape_tuple alloc_def
           split: sum.splits)

section \<open>The invocation protocol\<close>

lemma demo_copy_2:
  "copy_inputs (map PyTensor [0, 1]) (tensors demo_state) (arrays demo_state) =
     (Inr [8, 10],
      arrays demo_state @
        [\<lparr>shape = [2, 2], elems = [1, 2, 3, 4]\<rparr>, \<lparr>shape = [2, 2], elems = [1, 2, 3, 4]\<rparr>,
         \<lparr>shape = [2, 2], elems = [5, 6, 7, 8]\<rparr>, \<lparr>shape = [2, 2], elems = [5, 6, 7, 8]\<rparr>])"
  by (simp add: demo_state_def ndarray_copy_def astype_float32_def alloc_def)

lemma demo_Add_forward:
  "u_forward Add
     (arrays demo_state @
        [\<lparr>shape = [2, 2], elems = [1, 2, 3, 4]\<rparr>, \<lparr>shape = [2, 2], elems = [1, 2, 3, 4]\<rparr>,
         \<lparr>shape = [2, 2], elems = [5, 6, 7, 8]\<rparr>, \<lparr>shape = [2, 2], elems = [5, 6, 7, 8]\<rparr>])
     [8, 10] [] =
   (Inr (11, PyTuple []),
    arrays demo_state @
        [\<lparr>shape = [2, 2], elems = [1, 2, 3, 4]\<rparr>, \<lparr>shape = [2, 2], elems = [1, 2, 3, 4]\<rparr>,
         \<lparr>shape = [2, 2], elems = [5, 6, 7, 8]\<rparr>, \<lparr>shape = [2, 2], elems = [5, 6, 7, 8]\<rparr>,
         \<lparr>shape = [2, 2], elems = [6, 8, 10, 12]\<rparr>])"
  by (simp add: Add_def Add_forward_ok wf_array_def demo_state_def)

lemma demo_state_fields:
  "length (tensors demo_state) = 4" "op_count demo_state = 0" "graph demo_state = []"
  "length (arrays demo_state) = 7"
  by (simp_all add: demo_state_def)

lemma string_of_nat_1: "string_of_nat (Suc 0) = ''1''"
  by (simp add: string_of_nat.simps)

text \<open>
  C1. An invocation \<^verbatim>\<open>Cls(*ts, **kw)\<close> on Tensors \<open>ts\<close> whose forward computation completes
  (the copies of the inputs are made and \<^verbatim>\<open>_forward\<close> returns an output and a cache) has as its
  value a Tensor, not the Op: the Tensor at the first free place of the Tensor store, so one
  that did not exist before, wrapping the output of \<^verbatim>\<open>_forward\<close> and named after the class.
  The graph of the state it leaves is the graph of before with exactly one more entry: that
  Tensor, the Op instance (with its name, the cache and the keyword arguments), and the input
  Tensors \<open>ts\<close> in the order given. The counter of Ops has moved by one.
\<close>

theorem invocation_returns_registered_tensor:
  assumes "copy_inputs (map PyTensor ts) (tensors s) (arrays s) = (Inr input_tensor_data, h)"
      and "u_forward cls h input_tensor_data kw = (Inr (output_data, c), h')"
  shows "TensorOp_new cls (map PyTensor ts) kw s =
     (Inr (PyTensor (length (tensors s))),
      \<lparr>op_count = op_count s + 1, arrays = h',
       tensors = tensors s @ [\<lparr>data = output_data, grad = None, name = cls_name cls\<rparr>],
       graph = graph s @
         [(length (tensors s),
           \<lparr>op_cls = cls,
            op_name = ''Op:'' @ cls_name cls @ '':'' @ string_of_nat (op_count s + 1),
            cache = Some c, kwargs = Some kw\<rparr>,
           ts)]\<rparr>)"
  by (simp only: TensorOp_new_completes [OF assms] filter_tensors)

theorem invocation_returns_registered_tensor_witness:
  "copy_inputs (map PyTensor [0, 1]) (tensors demo_state) (arrays demo_state) =
     (Inr [8, 10],
      arrays demo_state @
        [\<lparr>shape = [2, 2], elems = [1, 2, 3, 4]\<rparr>, \<lparr>shape = [2, 2], elems = [1, 2, 3, 4]\<rparr>,
         \<lparr>shape = [2, 2], elems = [5, 6, 7, 8]\<rparr>, \<lparr>shape = [2, 2], elems = [5, 6, 7, 8]\<rparr>])
   \<and> u_forward Add
     (arrays demo_state @
        [\<lparr>shape = [2, 2], elems = [1, 2, 3, 4]\<rparr>, \<lparr>shape = [2, 2], elems = [1, 2, 3, 4]\<rparr>,
         \<lparr>shape = [2, 2], elems = [5, 6, 7, 8]\<rparr>, \<lparr>shape = [2, 2], elems = [5, 6, 7, 8]\<rparr>])
     [8, 10] [] =
     (Inr (11, PyTuple []),
      arrays demo_state @
        [\<lparr>shape = [2, 2], elems = [1, 2, 3, 4]\<rparr>, \<lparr>shape = [2, 2], elems = [1, 2, 3, 4]\<rparr>,
         \<lparr>shape = [2, 2], elems = [5, 6, 7, 8]\<rparr>, \<lparr>shape = [2, 2], elems = [5, 6, 7, 8]\<rparr>,
         \<lparr>shape = [2, 2], elems = [6, 8, 10, 12]\<rparr>])
   \<and> fst (TensorOp_new Add (map PyTensor [0, 1]) [] demo_state) = Inr (PyTensor 4)
   \<and> tensors (snd (TensorOp_new Add (map PyTensor [0, 1]) [] demo_state)) =
       tensors demo_state @ [\<lparr>data = 11, grad = None, name = ''Add''\<rparr>]
   \<and> registered (snd (TensorOp_new Add (map PyTensor [0, 1]) [] demo_state)) =
       [(4, ''Op:Add:1'', Some (PyTuple []), Some [], [0, 1])]"
proof -
  note new = invocation_returns_registered_tensor [OF demo_copy_2 demo_Add_forward]
  have r: "fst (TensorOp_new Add (map PyTensor [0, 1]) [] demo_state) = Inr (PyTensor 4)"
    unfolding new by (simp add: demo_state_fields)
  have t: "tensors (snd (TensorOp_new Add (map PyTensor [0, 1]) [] demo_state)) =
       tensors demo_state @ [\<lparr>data = 11, grad = None, name = ''Add''\<rparr>]"
    unfolding new by (simp add: Add_def)
  have g: "registered (snd (TensorOp_new Add (map PyTensor [0, 1]) [] demo_state)) =
       [(4, ''Op:Add:1'', Some (PyTuple []), Some [], [0, 1])]"
    unfolding new by (simp add: registered_def demo_state_fields string_of_nat_1 Add_def)
  show ?thesis
    using demo_copy_2 demo_Add_forward r t g by (intro conjI)
qed

text \<open>
  C8. If some positional argument of an invocation is not a Tensor (a plain int or float, for
  instance), the invocation raises the \<^verbatim>\<open>TypeError\<close> of \<^verbatim>\<open>TensorOp.forward\<close>. The outcome does not
  depend on the class at all: \<^verbatim>\<open>_forward\<close> is never reached, nothing is added to the graph or the
  Tensors, and the state differs only by the counter of Ops and by the copies made of the
  Tensors that came before the offending argument.
\<close>

theorem non_tensor_argument_raises_type_error:
  assumes "\<not> list_all is_Tensor xs"
  shows "TensorOp_new cls xs kw s =
           (Inl (TypeError ''Illegal input type''),
            s\<lparr>op_count := op_count s + 1,
              arrays := snd (copy_inputs xs (tensors s) (arrays s))\<rparr>)
         \<and> (\<forall>cls'. TensorOp_new cls' xs kw s = TensorOp_new cls xs kw s)"
  by (simp only: TensorOp_new_bad_input [OF assms]) simp

theorem non_tensor_argument_raises_type_error_witness:
  "\<not> list_all is_Tensor [PyTensor 0, PyInt 2 :: real pyobj]
   \<and> fst (TensorOp_new Add [PyTensor 0, PyInt 2] [] demo_state) = Inl (TypeError ''Illegal input type'')
   \<and> graph (snd (TensorOp_new Add [PyTensor 0, PyInt 2] [] demo_state)) = graph demo_state
   \<and> tensors (snd (TensorOp_new Add [PyTensor 0, PyInt 2] [] demo_state)) = tensors demo_state
   \<and> TensorOp_new MatMul [PyTensor 0, PyInt 2] [] demo_state
       = TensorOp_new Add [PyTensor 0, PyInt 2] [] demo_state"
proof -
  have bad: "\<not> list_all is_Tensor [PyTensor 0, PyInt 2 :: real pyobj]" by simp
  note t = non_tensor_argument_raises_type_error [OF bad, of Add "[]" demo_state]
  from t have a: "TensorOp_new Add [PyTensor 0, PyInt 2] [] demo_state =
           (Inl (TypeError ''Illegal input type''),
            demo_state\<lparr>op_count := op_count demo_state + 1,
              arrays := snd (copy_inputs [PyTensor 0, PyInt 2] (tensors demo_state)
                               (arrays demo_state))\<rparr>)"
    by (rule conjunct1)
  from t have "\<forall>cls'. TensorOp_new cls' [PyTensor 0, PyInt 2] [] demo_state
                  = TensorOp_new Add [PyTensor 0, PyInt 2] [] demo_state"
    by (rule conjunct2)
  then have b: "TensorOp_new MatMul [PyTensor 0, PyInt 2] [] demo_state
                  = TensorOp_new Add [PyTensor 0, PyInt 2] [] demo_state"
    by (rule spec)
  show ?thesis using bad b by (simp add: a)
qed

text \<open>
  C7, as the code has it. When \<^verbatim>\<open>_backward\<close> returns a value, \<^verbatim>\<open>backward\<close> raises its
  \<^verbatim>\<open>TypeError\<close> exactly when that value is not a tuple, and hands a tuple back unchanged
  whatever its length: the number of gradients is not compared with the number of inputs.
\<close>

theorem backward_type_error_iff_not_tuple:
  assumes "cache self = Some c" and "kwargs self = Some kw"
      and "u_backward (op_cls self) h upstream_grads c kw = (Inr grads, h')"
  shows "(fst (backward self upstream_grads h)
            = Inl (TypeError ''Must return tuple of grads wrt input tensors.'')
          \<longleftrightarrow> \<not> is_tuple grads)
         \<and> (is_tuple grads \<longrightarrow> backward self upstream_grads h = (Inr grads, h'))"
  using assms by (simp add: backward_def)

theorem backward_type_error_iff_not_tuple_witness:
  "cache \<lparr>op_cls = Add, op_name = ''Op:Add:1'', cache = Some (PyTuple []), kwargs = Some []\<rparr>
     = Some (PyTuple [] :: real pyobj)
   \<and> kwargs \<lparr>op_cls = Add :: real op_class, op_name = ''Op:Add:1'', cache = Some (PyTuple []),
             kwargs = Some []\<rparr> = Some []
   \<and> u_backward Add (arrays demo_state) 6 (PyTuple []) []
       = (Inr (PyTuple [PyArray 6, PyArray 6]), arrays demo_state)
   \<and> is_tuple (PyTuple [PyArray 6, PyArray 6 :: real pyobj])
   \<and> backward \<lparr>op_cls = Add, op_name = ''Op:Add:1'', cache = Some (PyTuple []), kwargs = Some []\<rparr>
        6 (arrays demo_state)
       = (Inr (PyTuple [PyArray 6, PyArray 6]), arrays demo_state)"
proof -
  let ?self = "\<lparr>op_cls = Add :: real op_class, op_name = ''Op:Add:1'', cache = Some (PyTuple []),
                kwargs = Some []\<rparr>"
  have b: "u_backward (op_cls ?self) (arrays demo_state) 6 (PyTuple []) []
       = (Inr (PyTuple [PyArray 6, PyArray 6]), arrays demo_state)"
    by (simp add: Add_def Add_backward_ok)
  have c: "cache ?self = Some (PyTuple [])" and k: "kwargs ?self = Some []" by simp_all
  note t = backward_type_error_iff_not_tuple [OF c k b]
  show ?thesis using b t by simp
qed

text \<open>
  C7, as stated, fails: the Op made by \<^verbatim>\<open>Lopsided(a, b)\<close> has the two inputs \<open>a\<close> and \<open>b\<close>, and
  its \<^verbatim>\<open>backward\<close> returns a tuple of one gradient without a \<^verbatim>\<open>TypeError\<close>.
\<close>

theorem backward_accepts_wrong_length:
  "registered (snd (TensorOp_new Lopsided [PyTensor 0, PyTensor 1] [] demo_state))
     = [(4, ''Op:Lopsided:1'', Some (PyTuple []), Some [], [0, 1])]
   \<and> backward (last_op (snd (TensorOp_new Lopsided [PyTensor 0, PyTensor 1] [] demo_state))) 6
        (arrays (snd (TensorOp_new Lopsided [PyTensor 0, PyTensor 1] [] demo_state)))
     = (Inr (PyTuple [PyArray 6]),
        arrays (snd (TensorOp_new Lopsided [PyTensor 0, PyTensor 1] [] demo_state)))"
proof -
  have f: "u_forward Lopsided
     (arrays demo_state @
        [\<lparr>shape = [2, 2], elems = [1, 2, 3, 4]\<rparr>, \<lparr>shape = [2, 2], elems = [1, 2, 3, 4]\<rparr>,
         \<lparr>shape = [2, 2], elems = [5, 6, 7, 8]\<rparr>, \<lparr>shape = [2, 2], elems = [5, 6, 7, 8]\<rparr>])
     [8, 10] [] =
   (Inr (11, PyTuple []),
    arrays demo_state @
        [\<lparr>shape = [2, 2], elems = [1, 2, 3, 4]\<rparr>, \<lparr>shape = [2, 2], elems = [1, 2, 3, 4]\<rparr>,
         \<lparr>shape = [2, 2], elems = [5, 6, 7, 8]\<rparr>, \<lparr>shape = [2, 2], elems = [5, 6, 7, 8]\<rparr>,
         \<lparr>shape = [2, 2], elems = [6, 8, 10, 12]\<rparr>])"
    using demo_Add_forward by (simp add: Lopsided_def Add_def)
  have c: "copy_inputs [PyTensor 0, PyTensor 1] (tensors demo_state) (arrays demo_state) =
     (Inr [8, 10],
      arrays demo_state @
        [\<lparr>shape = [2, 2], elems = [1, 2, 3, 4]\<rparr>, \<lparr>shape = [2, 2], elems = [1, 2, 3, 4]\<rparr>,
         \<lparr>shape = [2, 2], elems = [5, 6, 7, 8]\<rparr>, \<lparr>shape = [2, 2], elems = [5, 6, 7, 8]\<rparr>])"
    using demo_copy_2 by simp
  note new = TensorOp_new_completes [OF c f]
  show ?thesis
    unfolding new
    by (simp add: registered_def last_op_def demo_state_fields string_of_nat_1 Lopsided_def
          backward_def Lopsided_backward_def bind_args_2 on_ok_def)
qed

section \<open>The operations\<close>

lemma demo_valid:
  "valid_tensor demo_state 0" "valid_tensor demo_state 1"
  "valid_tensor demo_state 2" "valid_tensor demo_state 3"
  by (simp_all add: valid_tensor_def demo_state_def)

lemma demo_tensor_array:
  "tensor_array demo_state 0 = \<lparr>shape = [2, 2], elems = [1, 2, 3, 4]\<rparr>"
  "tensor_array demo_state 1 = \<lparr>shape = [2, 2], elems = [5, 6, 7, 8]\<rparr>"
  "tensor_array demo_state 2 = \<lparr>shape = [2, 3], elems = [1, 2, 3, 4, 5, 6]\<rparr>"
  "tensor_array demo_state 3 = \<lparr>shape = [0, 3], elems = []\<rparr>"
  "tensor_array demo_state (Suc 0) = \<lparr>shape = [2, 2], elems = [5, 6, 7, 8]\<rparr>"
  by (simp_all add: tensor_array_def demo_state_def)

lemma demo_wf:
  "wf_array (tensor_array demo_state 0)" "wf_array (tensor_array demo_state 1)"
  "wf_array (tensor_array demo_state 2)" "wf_array (tensor_array demo_state 3)"
  by (simp_all add: demo_tensor_array wf_array_def)

text \<open>
  C2. For Tensors \<open>t1\<close> and \<open>t2\<close> whose arrays have the same shape, \<^verbatim>\<open>Add(t1, t2)\<close> returns a
  new Tensor whose array has that shape and as elements the sums of the elements of the two
  arrays, position by position; and for every upstream gradient (and every array store)
  the \<^verbatim>\<open>backward\<close> of the Op it registered returns the pair of the upstream gradient and the
  upstream gradient, the very array it was given, and leaves the store alone.
\<close>

theorem Add_forward_and_backward:
  fixes s :: "'a::plus state"
  assumes "valid_tensor s t1" and "valid_tensor s t2"
      and "wf_array (tensor_array s t1)" and "wf_array (tensor_array s t2)"
      and "shape (tensor_array s t1) = shape (tensor_array s t2)"
      and "r = TensorOp_new Add [PyTensor t1, PyTensor t2] [] s"
  shows "fst r = Inr (PyTensor (length (tensors s)))
         \<and> tensor_array (snd r) (length (tensors s)) =
             \<lparr>shape = shape (tensor_array s t1),
              elems = map2 (+) (elems (tensor_array s t1)) (elems (tensor_array s t2))\<rparr>
         \<and> (\<forall>h upstream_grad.
               backward (last_op (snd r)) upstream_grad h =
                 (Inr (PyTuple [PyArray upstream_grad, PyArray upstream_grad]), h))"
proof -
  let ?A = "tensor_array s t1" and ?B = "tensor_array s t2"
  let ?h = "arrays s @ [?A, ?A, ?B, ?B]"
  let ?r1 = "Suc (length (arrays s))" and ?r2 = "Suc (Suc (Suc (length (arrays s))))"
  have c: "copy_inputs [PyTensor t1, PyTensor t2] (tensors s) (arrays s) = (Inr [?r1, ?r2], ?h)"
    unfolding tensor_array_def
    by (rule copy_inputs_2) (use assms(2) in \<open>simp add: valid_tensor_def\<close>)
  have g1: "?h ! ?r1 = ?A" and g2: "?h ! ?r2 = ?B" by (simp_all add: nth_append)
  have f: "u_forward Add ?h [?r1, ?r2] [] =
      (Inr (length ?h, PyTuple []),
       ?h @ [\<lparr>shape = shape ?A, elems = map2 (+) (elems ?A) (elems ?B)\<rparr>])"
    using Add_forward_ok [of ?h ?r1 ?r2] assms(3-5) by (simp only: g1 g2 Add_def) simp
  note new = TensorOp_new_completes [OF c f]
  have b: "\<forall>h u. backward (last_op (snd r)) u h = (Inr (PyTuple [PyArray u, PyArray u]), h)"
    unfolding assms(6) new
    by (simp add: last_op_def backward_def Add_def Add_backward_ok)
  have v: "tensor_array (snd r) (length (tensors s)) =
             \<lparr>shape = shape ?A, elems = map2 (+) (elems ?A) (elems ?B)\<rparr>"
    unfolding assms(6) new by (simp add: tensor_array_def nth_append)
  have "fst r = Inr (PyTensor (length (tensors s)))"
    unfolding assms(6) new by simp
  with v b show ?thesis by blast
qed

theorem Add_forward_and_backward_witness:
  "valid_tensor demo_state 0 \<and> valid_tensor demo_state 1
   \<and> wf_array (tensor_array demo_state 0) \<and> wf_array (tensor_array demo_state 1)
   \<and> shape (tensor_array demo_state 0) = shape (tensor_array demo_state 1)
   \<and> fst (TensorOp_new Add [PyTensor 0, PyTensor 1] [] demo_state) = Inr (PyTensor 4)
   \<and> tensor_array (snd (TensorOp_new Add [PyTensor 0, PyTensor 1] [] demo_state)) 4 =
        \<lparr>shape = [2, 2], elems = [6, 8, 10, 12]\<rparr>
   \<and> backward (last_op (snd (TensorOp_new Add [PyTensor 0, PyTensor 1] [] demo_state))) 6
        (arrays demo_state) =
        (Inr (PyTuple [PyArray 6, PyArray 6]), arrays demo_state)"
proof -
  have sh: "shape (tensor_array demo_state 0) = shape (tensor_array demo_state 1)"
    by (simp add: demo_tensor_array)
  note t = Add_forward_and_backward [OF demo_valid(1,2) demo_wf(1,2) sh refl]
  show ?thesis
    using t demo_valid(1,2) demo_wf(1,2) by (simp add: demo_tensor_array demo_state_fields)
qed







lemma MatMul_backward_2d:
  fixes h :: "'a::semiring_0 heap"
  assumes "wf_array (h ! r1)" "wf_array (h ! r2)" "wf_array (h ! u)"
    and "shape (h ! r1) = [m, k]" "shape (h ! r2) = [k, n]" "shape (h ! u) = [m, n]"
    and "r1 < length h" "r2 < length h" "u < length h"
  shows "\<exists>g1 g2. np_matmul (h ! u) (np_T (h ! r2)) = Inr g1
           \<and> np_matmul (np_T (h ! r1)) (h ! u) = Inr g2
           \<and> shape g1 = [m, k] \<and> shape g2 = [k, n]
           \<and> MatMul_backward h u (PyTuple [PyArray r1, PyArray r2]) [] =
               (Inr (PyTuple [PyArray (length h), PyArray (Suc (length h))]), h @ [g1, g2])"
proof -
  have g1: "np_matmul (h ! u) (np_T (h ! r2)) =
      Inr \<lparr>shape = [m, k], elems = mm2 m n k (elems (h ! u)) (elems (np_T (h ! r2)))\<rparr>"
    by (rule np_matmul_2d) (use assms in \<open>simp_all add: wf_np_T shape_np_T\<close>)
  have g2: "np_matmul (np_T (h ! r1)) (h ! u) =
      Inr \<lparr>shape = [k, n], elems = mm2 k m n (elems (np_T (h ! r1))) (elems (h ! u))\<rparr>"
    by (rule np_matmul_2d) (use assms in \<open>simp_all add: wf_np_T shape_np_T\<close>)
  show ?thesis
    using MatMul_backward_ok [OF assms] by (simp add: g1 g2)
qed

text \<open>
  C4. For Tensors whose arrays \<open>A\<close> and \<open>B\<close> have the shapes (m,k) and (k,n), \<^verbatim>\<open>MatMul\<close> returns a
  new Tensor holding the matrix product of \<open>A\<close> and \<open>B\<close>, of shape (m,n). The cache of the Op is
  the pair of the two arrays handed to \<^verbatim>\<open>_forward\<close>, which hold \<open>A\<close> and \<open>B\<close>. In every store that
  still holds them and for every upstream gradient \<open>U\<close> of shape (m,n), \<^verbatim>\<open>backward\<close> returns the
  pair of two new arrays, the matrix products of \<open>U\<close> with the transpose of \<open>B\<close> and of the
  transpose of \<open>A\<close> with \<open>U\<close>, of the shapes (m,k) and (k,n).
\<close>

theorem MatMul_shapes_and_gradients:
  fixes s :: "'a::semiring_0 state"
  assumes "valid_tensor s t1" and "valid_tensor s t2"
      and "wf_array (tensor_array s t1)" and "wf_array (tensor_array s t2)"
      and "shape (tensor_array s t1) = [m, k]" and "shape (tensor_array s t2) = [k, n]"
      and "r = TensorOp_new MatMul [PyTensor t1, PyTensor t2] [] s"
  shows "fst r = Inr (PyTensor (length (tensors s)))
         \<and> np_matmul (tensor_array s t1) (tensor_array s t2)
             = Inr (tensor_array (snd r) (length (tensors s)))
         \<and> shape (tensor_array (snd r) (length (tensors s))) = [m, n]
         \<and> cache (last_op (snd r)) =
             Some (PyTuple [PyArray (length (arrays s) + 1), PyArray (length (arrays s) + 3)])
         \<and> arrays (snd r) ! (length (arrays s) + 1) = tensor_array s t1
         \<and> arrays (snd r) ! (length (arrays s) + 3) = tensor_array s t2
         \<and> length (arrays (snd r)) = length (arrays s) + 5
         \<and> (\<forall>h upstream_grad.
               h ! (length (arrays s) + 1) = tensor_array s t1
               \<and> h ! (length (arrays s) + 3) = tensor_array s t2
               \<and> length (arrays s) + 3 < length h \<and> upstream_grad < length h
               \<and> wf_array (h ! upstream_grad) \<and> shape (h ! upstream_grad) = [m, n] \<longrightarrow>
               (\<exists>g1 g2.
                  np_matmul (h ! upstream_grad) (np_T (tensor_array s t2)) = Inr g1
                  \<and> np_matmul (np_T (tensor_array s t1)) (h ! upstream_grad) = Inr g2
                  \<and> shape g1 = [m, k] \<and> shape g2 = [k, n]
                  \<and> backward (last_op (snd r)) upstream_grad h =
                      (Inr (PyTuple [PyArray (length h), PyArray (Suc (length h))]),
                       h @ [g1, g2])))"
proof -
  let ?A = "tensor_array s t1" and ?B = "tensor_array s t2"
  let ?n = "length (arrays s)"
  let ?h = "arrays s @ [?A, ?A, ?B, ?B]"
  let ?r1 = "Suc ?n" and ?r2 = "Suc (Suc (Suc ?n))"
  have c: "copy_inputs [PyTensor t1, PyTensor t2] (tensors s) (arrays s) = (Inr [?r1, ?r2], ?h)"
    unfolding tensor_array_def
    by (rule copy_inputs_2) (use assms(2) in \<open>simp add: valid_tensor_def\<close>)
  have g1: "?h ! ?r1 = ?A" and g2: "?h ! ?r2 = ?B" by (simp_all add: nth_append)
  let ?out = "\<lparr>shape = [m, n], elems = mm2 m k n (elems ?A) (elems ?B)\<rparr>"
  have f: "u_forward MatMul ?h [?r1, ?r2] [] =
      (Inr (length ?h, PyTuple [PyArray ?r1, PyArray ?r2]), ?h @ [?out])"
    using MatMul_forward_ok [of ?h ?r1 ?r2 m k n] assms(3-6)
    by (simp only: g1 g2 MatMul_def) simp
  note new = TensorOp_new_completes [OF c f]
  have mm: "np_matmul ?A ?B = Inr ?out"
    by (rule np_matmul_2d [OF assms(3-6)])
  have out: "tensor_array (snd r) (length (tensors s)) = ?out"
    unfolding assms(7) new by (simp add: tensor_array_def nth_append)
  have r1: "fst r = Inr (PyTensor (length (tensors s)))"
    unfolding assms(7) new by simp
  have r4: "cache (last_op (snd r)) = Some (PyTuple [PyArray (?n + 1), PyArray (?n + 3)])"
    unfolding assms(7) new by (simp add: last_op_def)
  have r5: "arrays (snd r) ! (?n + 1) = ?A" and r6: "arrays (snd r) ! (?n + 3) = ?B"
    and r7: "length (arrays (snd r)) = ?n + 5"
    unfolding assms(7) new by (simp_all add: nth_append)
  have b: "\<exists>g1 g2.
                  np_matmul (h ! u) (np_T ?B) = Inr g1
                  \<and> np_matmul (np_T ?A) (h ! u) = Inr g2
                  \<and> shape g1 = [m, k] \<and> shape g2 = [k, n]
                  \<and> backward (last_op (snd r)) u h =
                      (Inr (PyTuple [PyArray (length h), PyArray (Suc (length h))]),
                       h @ [g1, g2])"
    if "h ! (?n + 1) = ?A" "h ! (?n + 3) = ?B" "?n + 3 < length h" "u < length h"
       "wf_array (h ! u)" "shape (h ! u) = [m, n]" for h u
  proof -
    have e1: "?n + 1 = ?r1" and e3: "?n + 3 = ?r2" by simp_all
    have a1: "h ! ?r1 = ?A" and a2: "h ! ?r2 = ?B" and l1: "?r1 < length h" and l2: "?r2 < length h"
      using that(1,2,3) unfolding e1 e3 by simp_all
    have "\<exists>g1 g2. np_matmul (h ! u) (np_T (h ! ?r2)) = Inr g1
           \<and> np_matmul (np_T (h ! ?r1)) (h ! u) = Inr g2
           \<and> shape g1 = [m, k] \<and> shape g2 = [k, n]
           \<and> MatMul_backward h u (PyTuple [PyArray ?r1, PyArray ?r2]) [] =
               (Inr (PyTuple [PyArray (length h), PyArray (Suc (length h))]), h @ [g1, g2])"
      by (rule MatMul_backward_2d) (use that(4,5,6) a1 a2 l1 l2 assms(3-6) in simp_all)
    then obtain g1 g2 where m1: "np_matmul (h ! u) (np_T ?B) = Inr g1"
      and m2: "np_matmul (np_T ?A) (h ! u) = Inr g2"
      and s1: "shape g1 = [m, k]" and s2: "shape g2 = [k, n]"
      and mb: "MatMul_backward h u (PyTuple [PyArray ?r1, PyArray ?r2]) [] =
               (Inr (PyTuple [PyArray (length h), PyArray (Suc (length h))]), h @ [g1, g2])"
      unfolding a1 a2 by blast
    have "backward (last_op (snd r)) u h =
            (Inr (PyTuple [PyArray (length h), PyArray (Suc (length h))]), h @ [g1, g2])"
      unfolding assms(7) new by (simp add: last_op_def backward_def MatMul_def mb)
    with m1 m2 s1 s2 show ?thesis by blast
  qed
  have r8: "shape (tensor_array (snd r) (length (tensors s))) = [m, n]"
    unfolding out by simp
  show ?thesis
    using r1 mm [folded out] r8 r4 r5 r6 r7 b by blast
qed

lemma demo_copy_ac:
  "copy_inputs [PyTensor 0, PyTensor 2] (tensors demo_state) (arrays demo_state) =
     (Inr [8, 10], arrays demo_state @
        [\<lparr>shape = [2, 2], elems = [1, 2, 3, 4]\<rparr>, \<lparr>shape = [2, 2], elems = [1, 2, 3, 4]\<rparr>,
         \<lparr>shape = [2, 3], elems = [1, 2, 3, 4, 5, 6]\<rparr>, \<lparr>shape = [2, 3], elems = [1, 2, 3, 4, 5, 6]\<rparr>])"
  by (simp add: demo_state_def ndarray_copy_def astype_float32_def alloc_def)

lemma demo_MatMul_arrays:
  "arrays (snd (TensorOp_new MatMul [PyTensor 0, PyTensor 2] [] demo_state)) =
     arrays demo_state @
        [\<lparr>shape = [2, 2], elems = [1, 2, 3, 4]\<rparr>, \<lparr>shape = [2, 2], elems = [1, 2, 3, 4]\<rparr>,
         \<lparr>shape = [2, 3], elems = [1, 2, 3, 4, 5, 6]\<rparr>, \<lparr>shape = [2, 3], elems = [1, 2, 3, 4, 5, 6]\<rparr>,
         \<lparr>shape = [2, 3], elems = [9, 12, 15, 19, 26, 33]\<rparr>]"
proof -
  let ?h = "arrays demo_state @
        [\<lparr>shape = [2, 2], elems = [1, 2, 3, 4]\<rparr>, \<lparr>shape = [2, 2], elems = [1, 2, 3, 4]\<rparr>,
         \<lparr>shape = [2, 3], elems = [1, 2, 3, 4, 5, 6]\<rparr>, \<lparr>shape = [2, 3], elems = [1, 2, 3, 4, 5, 6::real]\<rparr>]"
  have f: "u_forward MatMul ?h [8, 10] [] =
      (Inr (11, PyTuple [PyArray 8, PyArray 10]),
       ?h @ [\<lparr>shape = [2, 3], elems = [9, 12, 15, 19, 26, 33]\<rparr>])"
    using MatMul_forward_ok [of ?h 8 10 2 2 3]
    by (simp add: MatMul_def demo_state_def wf_array_def mm2_def upt_rec)
  show ?thesis
    unfolding TensorOp_new_completes [OF demo_copy_ac f] by simp
qed

theorem MatMul_shapes_and_gradients_witness:
  "valid_tensor demo_state 0 \<and> valid_tensor demo_state 2
   \<and> wf_array (tensor_array demo_state 0) \<and> wf_array (tensor_array demo_state 2)
   \<and> shape (tensor_array demo_state 0) = [2, 2] \<and> shape (tensor_array demo_state 2) = [2, 3]
   \<and> fst (TensorOp_new MatMul [PyTensor 0, PyTensor 2] [] demo_state) = Inr (PyTensor 4)
   \<and> tensor_array (snd (TensorOp_new MatMul [PyTensor 0, PyTensor 2] [] demo_state)) 4 =
        \<lparr>shape = [2, 3], elems = [9, 12, 15, 19, 26, 33]\<rparr>
   \<and> wf_array (arrays (snd (TensorOp_new MatMul [PyTensor 0, PyTensor 2] [] demo_state)) ! 5)
   \<and> shape (arrays (snd (TensorOp_new MatMul [PyTensor 0, PyTensor 2] [] demo_state)) ! 5) = [2, 3]
   \<and> backward (last_op (snd (TensorOp_new MatMul [PyTensor 0, PyTensor 2] [] demo_state))) 5
        (arrays (snd (TensorOp_new MatMul [PyTensor 0, PyTensor 2] [] demo_state))) =
        (Inr (PyTuple [PyArray 12, PyArray 13]),
         arrays (snd (TensorOp_new MatMul [PyTensor 0, PyTensor 2] [] demo_state))
           @ [\<lparr>shape = [2, 2], elems = [6, 15, 6, 15]\<rparr>,
              \<lparr>shape = [2, 3], elems = [4, 4, 4, 6, 6, 6]\<rparr>])"
proof -
  let ?r = "TensorOp_new MatMul [PyTensor 0, PyTensor 2] [] demo_state"
  let ?h = "arrays (snd ?r)"
  let ?U = "\<lparr>shape = [2, 3], elems = [1, 1, 1, 1, 1, 1::real]\<rparr>"
  have sa: "shape (tensor_array demo_state 0) = [2, 2]"
    and sc: "shape (tensor_array demo_state 2) = [2, 3]"
    by (simp_all add: demo_tensor_array)
  note t = MatMul_shapes_and_gradients [OF demo_valid(1,3) demo_wf(1,3) sa sc refl]
  have h5: "?h ! 5 = ?U" unfolding demo_MatMul_arrays by (simp add: demo_state_def)
  have wu: "wf_array (?h ! 5)" and su: "shape (?h ! 5) = [2, 3]"
    unfolding h5 by (simp_all add: wf_array_def)
  have len: "length ?h = 12" unfolding demo_MatMul_arrays by (simp add: demo_state_fields)
  have p1: "?h ! (length (arrays demo_state) + 1) = tensor_array demo_state 0"
    and p2: "?h ! (length (arrays demo_state) + 3) = tensor_array demo_state 2"
    using t by blast+
  have p3: "length (arrays demo_state) + 3 < length ?h" and p4: "5 < length ?h"
    unfolding len by (simp_all add: demo_state_fields)
  from t p1 p2 p3 p4 wu su obtain g1 g2 where
    m1: "np_matmul (?h ! 5) (np_T (tensor_array demo_state 2)) = Inr g1"
    and m2: "np_matmul (np_T (tensor_array demo_state 0)) (?h ! 5) = Inr g2"
    and b: "backward (last_op (snd ?r)) 5 ?h =
              (Inr (PyTuple [PyArray (length ?h), PyArray (Suc (length ?h))]), ?h @ [g1, g2])"
    by blast
  have v1: "np_matmul ?U (np_T (tensor_array demo_state 2)) =
      Inr \<lparr>shape = [2, 2], elems = [6, 15, 6, 15]\<rparr>"
    unfolding demo_tensor_array by code_simp
  have v2: "np_matmul (np_T (tensor_array demo_state 0)) ?U =
      Inr \<lparr>shape = [2, 3], elems = [4, 4, 4, 6, 6, 6]\<rparr>"
    unfolding demo_tensor_array by code_simp
  have g1: "g1 = \<lparr>shape = [2, 2], elems = [6, 15, 6, 15]\<rparr>"
    using m1 v1 unfolding h5 by simp
  have g2: "g2 = \<lparr>shape = [2, 3], elems = [4, 4, 4, 6, 6, 6]\<rparr>"
    using m2 v2 unfolding h5 by simp
  have b': "backward (last_op (snd ?r)) 5 ?h =
        (Inr (PyTuple [PyArray 12, PyArray 13]),
         ?h @ [\<lparr>shape = [2, 2], elems = [6, 15, 6, 15]\<rparr>,
               \<lparr>shape = [2, 3], elems = [4, 4, 4, 6, 6, 6]\<rparr>])"
    unfolding b g1 g2 len by simp
  have f1: "fst ?r = Inr (PyTensor 4)" using t by (simp add: demo_state_fields)
  have mm: "np_matmul (tensor_array demo_state 0) (tensor_array demo_state 2) =
      Inr \<lparr>shape = [2, 3], elems = [9, 12, 15, 19, 26, 33]\<rparr>"
    unfolding demo_tensor_array by code_simp
  from t have "np_matmul (tensor_array demo_state 0) (tensor_array demo_state 2) =
      Inr (tensor_array (snd ?r) (length (tensors demo_state)))"
    by blast
  with mm have f2: "tensor_array (snd ?r) 4 = \<lparr>shape = [2, 3], elems = [9, 12, 15, 19, 26, 33]\<rparr>"
    by (simp add: demo_state_fields)
  show ?thesis
    using demo_valid(1,3) demo_wf(1,3) sa sc f1 f2 wu su b' by (intro conjI)
qed

lemma Sum_new:
  "TensorOp_new Sum [PyTensor t] [] s =
     (Inr (PyTensor (length (tensors s))),
      \<lparr>op_count = op_count s + 1,
       arrays = arrays s @ [tensor_array s t, tensor_array s t, np_sum (tensor_array s t)],
       tensors = tensors s @
         [\<lparr>data = length (arrays s) + 2, grad = None, name = ''Sum''\<rparr>],
       graph = graph s @
         [(length (tensors s),
           \<lparr>op_cls = Sum,
            op_name = ''Op:'' @ ''Sum'' @ '':'' @ string_of_nat (op_count s + 1),
            cache = Some (shape_tuple (shape (tensor_array s t))), kwargs = Some []\<rparr>,
           [t])]\<rparr>)"
proof -
  let ?A = "tensor_array s t"
  let ?n = "length (arrays s)"
  let ?h = "arrays s @ [?A, ?A]"
  have c: "copy_inputs [PyTensor t] (tensors s) (arrays s) = (Inr [Suc ?n], ?h)"
    unfolding tensor_array_def by (rule copy_inputs_1)
  have g: "?h ! Suc ?n = ?A" by (simp add: nth_append)
  have f: "u_forward Sum ?h [Suc ?n] [] =
      (Inr (length ?h, shape_tuple (shape ?A)), ?h @ [np_sum ?A])"
    using Sum_forward_ok [of ?h "Suc ?n"] by (simp only: g Sum_def op_class.simps)
  show ?thesis
    unfolding TensorOp_new_completes [OF c f] by (simp add: Sum_def)
qed

lemma Mean_new:
  assumes "0 < np_size (tensor_array s t)"
  shows "TensorOp_new Mean [PyTensor t] [] s =
     (Inr (PyTensor (length (tensors s))),
      \<lparr>op_count = op_count s + 1,
       arrays = arrays s @ [tensor_array s t, tensor_array s t,
          times_float (np_sum (tensor_array s t)) (1 / of_nat (np_size (tensor_array s t)))],
       tensors = tensors s @
         [\<lparr>data = length (arrays s) + 2, grad = None, name = ''Mean''\<rparr>],
       graph = graph s @
         [(length (tensors s),
           \<lparr>op_cls = Mean,
            op_name = ''Op:'' @ ''Mean'' @ '':'' @ string_of_nat (op_count s + 1),
            cache = Some (PyTuple [shape_tuple (shape (tensor_array s t)),
                                   PyFloat (1 / of_nat (np_size (tensor_array s t)))]),
            kwargs = Some []\<rparr>,
           [t])]\<rparr>)"
proof -
  let ?A = "tensor_array s t"
  let ?n = "length (arrays s)"
  let ?h = "arrays s @ [?A, ?A]"
  have c: "copy_inputs [PyTensor t] (tensors s) (arrays s) = (Inr [Suc ?n], ?h)"
    unfolding tensor_array_def by (rule copy_inputs_1)
  have g: "?h ! Suc ?n = ?A" by (simp add: nth_append)
  have f: "u_forward Mean ?h [Suc ?n] [] =
      (Inr (length ?h, PyTuple [shape_tuple (shape ?A), PyFloat (1 / of_nat (np_size ?A))]),
       ?h @ [times_float (np_sum ?A) (1 / of_nat (np_size ?A))])"
    using Mean_forward_ok [of ?h "Suc ?n"] assms by (simp only: g Mean_def op_class.simps)
  show ?thesis
    unfolding TensorOp_new_completes [OF c f] by (simp add: Mean_def)
qed

lemma Sum_backward_registered:
  "backward (last_op (snd (TensorOp_new Sum [PyTensor t] [] s))) u h =
     (case np_full (shape (tensor_array s t)) (h ! u) of
        Inl e \<Rightarrow> (Inl e, h)
      | Inr g \<Rightarrow> (Inr (PyTuple [PyArray (length h)]), h @ [g]))"
  unfolding Sum_new
  by (simp add: last_op_def backward_def Sum_def Sum_backward_ok on_ok_def split: sum.splits)

lemma Mean_backward_registered:
  assumes "0 < np_size (tensor_array s t)"
  shows "backward (last_op (snd (TensorOp_new Mean [PyTensor t] [] s))) u h =
     (case np_full (shape (tensor_array s t)) (h ! u) of
        Inl e \<Rightarrow> (Inl e, h)
      | Inr g \<Rightarrow> (Inr (PyTuple [PyArray (length h)]),
                  h @ [times_float g (1 / of_nat (np_size (tensor_array s t)))]))"
  unfolding Mean_new [OF assms]
  by (simp add: last_op_def backward_def Mean_def Mean_backward_ok on_ok_def split: sum.splits)

text \<open>
  C10. \<^verbatim>\<open>Sum(t)\<close> succeeds whatever the shape of the array \<open>A\<close> of \<open>t\<close>, an array without elements
  included: it returns a new Tensor holding the scalar sum of the elements of \<open>A\<close>, which is 0
  when \<open>A\<close> has no elements. For an upstream gradient that is a scalar \<open>x\<close>, as the output is,
  \<^verbatim>\<open>backward\<close> of the registered Op succeeds in every store and returns the 1-tuple of a new
  array of the shape of \<open>A\<close> filled with \<open>x\<close>; when \<open>A\<close> has no elements that array has the
  shape of \<open>A\<close> and no elements.
\<close>

theorem Sum_total_on_every_shape:
  fixes s :: "'a::monoid_add state"
  assumes "valid_tensor s t" and "wf_array (tensor_array s t)"
      and "r = TensorOp_new Sum [PyTensor t] [] s"
  shows "fst r = Inr (PyTensor (length (tensors s)))
         \<and> tensor_array (snd r) (length (tensors s)) =
             \<lparr>shape = [], elems = [sum_list (elems (tensor_array s t))]\<rparr>
         \<and> (np_size (tensor_array s t) = 0 \<longrightarrow>
               tensor_array (snd r) (length (tensors s)) = \<lparr>shape = [], elems = [0]\<rparr>)
         \<and> (\<forall>h upstream_grad x.
               shape (h ! upstream_grad) = [] \<and> elems (h ! upstream_grad) = [x] \<longrightarrow>
               backward (last_op (snd r)) upstream_grad h =
                 (Inr (PyTuple [PyArray (length h)]),
                  h @ [\<lparr>shape = shape (tensor_array s t),
                        elems = replicate (np_size (tensor_array s t)) x\<rparr>]))
         \<and> (np_size (tensor_array s t) = 0 \<longrightarrow>
              (\<forall>h upstream_grad x.
                 shape (h ! upstream_grad) = [] \<and> elems (h ! upstream_grad) = [x] \<longrightarrow>
                 backward (last_op (snd r)) upstream_grad h =
                   (Inr (PyTuple [PyArray (length h)]),
                    h @ [\<lparr>shape = shape (tensor_array s t), elems = []\<rparr>])))"
proof -
  let ?A = "tensor_array s t"
  have r1: "fst r = Inr (PyTensor (length (tensors s)))"
    unfolding assms(3) Sum_new by simp
  have r2: "tensor_array (snd r) (length (tensors s)) = \<lparr>shape = [], elems = [sum_list (elems ?A)]\<rparr>"
    unfolding assms(3) Sum_new by (simp add: tensor_array_def nth_append np_sum_def)
  have e: "elems ?A = []" if "np_size ?A = 0"
    using that assms(2) by (simp add: wf_array_def np_size_def)
  have r3: "np_size ?A = 0 \<longrightarrow>
      tensor_array (snd r) (length (tensors s)) = \<lparr>shape = [], elems = [0]\<rparr>"
    unfolding r2 using e by simp
  have b: "backward (last_op (snd r)) u h =
                 (Inr (PyTuple [PyArray (length h)]),
                  h @ [\<lparr>shape = shape ?A, elems = replicate (np_size ?A) x\<rparr>])"
    if "shape (h ! u) = []" "elems (h ! u) = [x]" for h u x
    unfolding assms(3) Sum_backward_registered np_full_scalar [OF that]
    by (simp add: np_size_def)
  have b0: "backward (last_op (snd r)) u h =
                 (Inr (PyTuple [PyArray (length h)]), h @ [\<lparr>shape = shape ?A, elems = []\<rparr>])"
    if "np_size ?A = 0" "shape (h ! u) = []" "elems (h ! u) = [x]" for h u x
    unfolding b [OF that(2,3)] that(1) by simp
  show ?thesis using r1 r2 r3 b b0 by blast
qed

text \<open>
  C5. Let \<open>A\<close>, the array of \<open>t\<close>, have at least one element, and take the Ops registered by
  \<^verbatim>\<open>Sum(t)\<close> and by \<^verbatim>\<open>Mean(t)\<close>. For every upstream gradient and store: when \<^verbatim>\<open>backward\<close> of
  the Sum returns, it returns the 1-tuple of a new array \<open>g\<close> of the shape of \<open>A\<close>, and
  \<^verbatim>\<open>backward\<close> of the Mean returns the 1-tuple of a new array that is \<open>g\<close> with every element
  multiplied by \<open>1 / size\<close>, of the shape of \<open>A\<close> too; when that of the Sum raises, that of the
  Mean raises the same error. For a scalar upstream gradient that of the Sum does return.
\<close>

theorem Mean_gradient_is_scaled_Sum_gradient:
  fixes s :: "'a::{inverse,semiring_1} state"
  assumes "valid_tensor s t" and "0 < np_size (tensor_array s t)"
      and "rm = TensorOp_new Mean [PyTensor t] [] s"
      and "rs = TensorOp_new Sum [PyTensor t] [] s"
  shows "(\<forall>h upstream_grad gs h'.
            backward (last_op (snd rs)) upstream_grad h = (Inr gs, h') \<longrightarrow>
            (\<exists>g. gs = PyTuple [PyArray (length h)] \<and> h' = h @ [g]
               \<and> shape g = shape (tensor_array s t)
               \<and> backward (last_op (snd rm)) upstream_grad h =
                   (Inr (PyTuple [PyArray (length h)]),
                    h @ [times_float g (1 / of_nat (np_size (tensor_array s t)))])
               \<and> shape (times_float g (1 / of_nat (np_size (tensor_array s t))))
                   = shape (tensor_array s t)))
         \<and> (\<forall>h upstream_grad e h'.
              backward (last_op (snd rs)) upstream_grad h = (Inl e, h') \<longrightarrow>
              backward (last_op (snd rm)) upstream_grad h = (Inl e, h'))
         \<and> (\<forall>h upstream_grad x.
              shape (h ! upstream_grad) = [] \<and> elems (h ! upstream_grad) = [x] \<longrightarrow>
              backward (last_op (snd rs)) upstream_grad h =
                (Inr (PyTuple [PyArray (length h)]),
                 h @ [\<lparr>shape = shape (tensor_array s t),
                       elems = replicate (np_size (tensor_array s t)) x\<rparr>]))"
proof -
  let ?A = "tensor_array s t"
  let ?f = "1 / of_nat (np_size ?A) :: 'a"
  note bs = Sum_backward_registered [of t s]
  note bm = Mean_backward_registered [OF assms(2)]
  have a: "\<exists>g. gs = PyTuple [PyArray (length h)] \<and> h' = h @ [g] \<and> shape g = shape ?A
               \<and> backward (last_op (snd rm)) u h =
                   (Inr (PyTuple [PyArray (length h)]), h @ [times_float g ?f])
               \<and> shape (times_float g ?f) = shape ?A"
    if "backward (last_op (snd rs)) u h = (Inr gs, h')" for h u gs h'
  proof (cases "np_full (shape ?A) (h ! u)")
    case (Inl e)
    with that show ?thesis unfolding assms(4) bs by simp
  next
    case (Inr g)
    have sg: "shape g = shape ?A" by (rule np_full_shape [OF Inr])
    from that have "gs = PyTuple [PyArray (length h)]" "h' = h @ [g]"
      unfolding assms(4) bs Inr by simp_all
    moreover have "backward (last_op (snd rm)) u h =
        (Inr (PyTuple [PyArray (length h)]), h @ [times_float g ?f])"
      unfolding assms(3) bm Inr by simp
    moreover have "shape (times_float g ?f) = shape ?A"
      using sg by (simp add: times_float_def)
    ultimately show ?thesis using sg by blast
  qed
  have b: "backward (last_op (snd rm)) u h = (Inl e, h')"
    if "backward (last_op (snd rs)) u h = (Inl e, h')" for h u e h'
    using that unfolding assms(3,4) bs bm by (auto split: sum.splits)
  have c: "backward (last_op (snd rs)) u h =
                (Inr (PyTuple [PyArray (length h)]),
                 h @ [\<lparr>shape = shape ?A, elems = replicate (np_size ?A) x\<rparr>])"
    if "shape (h ! u) = []" "elems (h ! u) = [x]" for h u x
    unfolding assms(4) bs np_full_scalar [OF that] by (simp add: np_size_def)
  show ?thesis using a b c by blast
qed

lemma demo_scalar: "shape (arrays demo_state ! 4) = []" "elems (arrays demo_state ! 4) = [1]"
  by (simp_all add: demo_state_def)

lemma demo_sizes: "np_size (tensor_array demo_state 3) = 0" "0 < np_size (tensor_array demo_state 2)"
  "np_size (tensor_array demo_state 2) = 6"
  by (simp_all add: demo_tensor_array np_size_def)

lemma replicate_6: "replicate 6 x = [x, x, x, x, x, x]"
  by (simp add: numeral_eq_Suc)

theorem Sum_total_on_every_shape_witness:
  "valid_tensor demo_state 3 \<and> wf_array (tensor_array demo_state 3)
   \<and> np_size (tensor_array demo_state 3) = 0
   \<and> shape (arrays demo_state ! 4) = [] \<and> elems (arrays demo_state ! 4) = [1]
   \<and> fst (TensorOp_new Sum [PyTensor 3] [] demo_state) = Inr (PyTensor 4)
   \<and> tensor_array (snd (TensorOp_new Sum [PyTensor 3] [] demo_state)) 4 =
        \<lparr>shape = [], elems = [0]\<rparr>
   \<and> backward (last_op (snd (TensorOp_new Sum [PyTensor 3] [] demo_state))) 4 (arrays demo_state) =
        (Inr (PyTuple [PyArray 7]), arrays demo_state @ [\<lparr>shape = [0, 3], elems = []\<rparr>])
   \<and> valid_tensor demo_state 2 \<and> wf_array (tensor_array demo_state 2)
   \<and> tensor_array (snd (TensorOp_new Sum [PyTensor 2] [] demo_state)) 4 =
        \<lparr>shape = [], elems = [21]\<rparr>
   \<and> backward (last_op (snd (TensorOp_new Sum [PyTensor 2] [] demo_state))) 4 (arrays demo_state) =
        (Inr (PyTuple [PyArray 7]),
         arrays demo_state @ [\<lparr>shape = [2, 3], elems = [1, 1, 1, 1, 1, 1]\<rparr>])"
proof -
  note e = Sum_total_on_every_shape [OF demo_valid(4) demo_wf(4) refl]
  note c = Sum_total_on_every_shape [OF demo_valid(3) demo_wf(3) refl]
  have e1: "fst (TensorOp_new Sum [PyTensor 3] [] demo_state) = Inr (PyTensor 4)"
    using e by (simp add: demo_state_fields)
  from e demo_sizes(1)
  have "tensor_array (snd (TensorOp_new Sum [PyTensor 3] [] demo_state))
          (length (tensors demo_state)) = \<lparr>shape = [], elems = [0]\<rparr>"
    by blast
  then have e2: "tensor_array (snd (TensorOp_new Sum [PyTensor 3] [] demo_state)) 4 =
        \<lparr>shape = [], elems = [0]\<rparr>"
    by (simp only: demo_state_fields)
  from e demo_sizes(1) demo_scalar
  have "backward (last_op (snd (TensorOp_new Sum [PyTensor 3] [] demo_state))) 4 (arrays demo_state) =
          (Inr (PyTuple [PyArray (length (arrays demo_state))]),
           arrays demo_state @ [\<lparr>shape = shape (tensor_array demo_state 3), elems = []\<rparr>])"
    by blast
  then have e3: "backward (last_op (snd (TensorOp_new Sum [PyTensor 3] [] demo_state))) 4
        (arrays demo_state) =
        (Inr (PyTuple [PyArray 7]), arrays demo_state @ [\<lparr>shape = [0, 3], elems = []\<rparr>])"
    by (simp add: demo_state_fields demo_tensor_array)
  have c2: "tensor_array (snd (TensorOp_new Sum [PyTensor 2] [] demo_state)) 4 =
        \<lparr>shape = [], elems = [21]\<rparr>"
    using c by (simp add: demo_state_fields demo_tensor_array)
  from c demo_scalar
  have "backward (last_op (snd (TensorOp_new Sum [PyTensor 2] [] demo_state))) 4 (arrays demo_state) =
          (Inr (PyTuple [PyArray (length (arrays demo_state))]),
           arrays demo_state @ [\<lparr>shape = shape (tensor_array demo_state 2),
               elems = replicate (np_size (tensor_array demo_state 2)) 1\<rparr>])"
    by blast
  then have c3: "backward (last_op (snd (TensorOp_new Sum [PyTensor 2] [] demo_state))) 4
        (arrays demo_state) =
        (Inr (PyTuple [PyArray 7]),
         arrays demo_state @ [\<lparr>shape = [2, 3], elems = [1, 1, 1, 1, 1, 1]\<rparr>])"
    by (simp add: demo_state_fields demo_tensor_array np_size_def replicate_6)
  show ?thesis
    using demo_valid(4) demo_wf(4) demo_sizes(1) demo_scalar e1 e2 e3 demo_valid(3) demo_wf(3) c2 c3
    by (intro conjI)
qed

theorem Mean_gradient_is_scaled_Sum_gradient_witness:
  "valid_tensor demo_state 2 \<and> 0 < np_size (tensor_array demo_state 2)
   \<and> backward (last_op (snd (TensorOp_new Sum [PyTensor 2] [] demo_state))) 4 (arrays demo_state) =
        (Inr (PyTuple [PyArray 7]),
         arrays demo_state @ [\<lparr>shape = [2, 3], elems = [1, 1, 1, 1, 1, 1]\<rparr>])
   \<and> backward (last_op (snd (TensorOp_new Mean [PyTensor 2] [] demo_state))) 4 (arrays demo_state) =
        (Inr (PyTuple [PyArray 7]),
         arrays demo_state @ [\<lparr>shape = [2, 3], elems = [1/6, 1/6, 1/6, 1/6, 1/6, 1/6]\<rparr>])"
proof -
  let ?rs = "TensorOp_new Sum [PyTensor 2] [] demo_state"
  let ?rm = "TensorOp_new Mean [PyTensor 2] [] demo_state"
  let ?h = "arrays demo_state"
  let ?G = "\<lparr>shape = [2, 3], elems = [1, 1, 1, 1, 1, 1::real]\<rparr>"
  note t = Mean_gradient_is_scaled_Sum_gradient [OF demo_valid(3) demo_sizes(2) refl refl]
  from t demo_scalar
  have "backward (last_op (snd ?rs)) 4 ?h =
          (Inr (PyTuple [PyArray (length ?h)]),
           ?h @ [\<lparr>shape = shape (tensor_array demo_state 2),
               elems = replicate (np_size (tensor_array demo_state 2)) 1\<rparr>])"
    by blast
  then have bs: "backward (last_op (snd ?rs)) 4 ?h = (Inr (PyTuple [PyArray 7]), ?h @ [?G])"
    by (simp add: demo_state_fields demo_tensor_array np_size_def replicate_6)
  from t bs obtain g where g: "?h @ [?G] = ?h @ [g]"
    and bm: "backward (last_op (snd ?rm)) 4 ?h =
        (Inr (PyTuple [PyArray (length ?h)]),
         ?h @ [times_float g (1 / of_nat (np_size (tensor_array demo_state 2)))])"
    by blast
  from g have "g = ?G" by simp
  with bm have "backward (last_op (snd ?rm)) 4 ?h =
        (Inr (PyTuple [PyArray 7]),
         ?h @ [\<lparr>shape = [2, 3], elems = [1/6, 1/6, 1/6, 1/6, 1/6, 1/6]\<rparr>])"
    by (simp add: demo_state_fields demo_sizes(3) times_float_def)
  with bs demo_valid(3) demo_sizes(2) show ?thesis by (intro conjI)
qed

section \<open>Violated preconditions\<close>

lemma Subtract_new_mismatch:
  fixes s :: "'a::{minus,uminus} state"
  assumes "valid_tensor s t2" "shape (tensor_array s t1) \<noteq> shape (tensor_array s t2)"
  shows "TensorOp_new Subtract [PyTensor t1, PyTensor t2] [] s =
     (Inl AssertionError,
      s\<lparr>op_count := op_count s + 1,
        arrays := arrays s @ [tensor_array s t1, tensor_array s t1,
                              tensor_array s t2, tensor_array s t2]\<rparr>)"
proof -
  let ?A = "tensor_array s t1" and ?B = "tensor_array s t2"
  let ?h = "arrays s @ [?A, ?A, ?B, ?B]"
  let ?r1 = "Suc (length (arrays s))" and ?r2 = "Suc (Suc (Suc (length (arrays s))))"
  have c: "copy_inputs [PyTensor t1, PyTensor t2] (tensors s) (arrays s) = (Inr [?r1, ?r2], ?h)"
    unfolding tensor_array_def
    by (rule copy_inputs_2) (use assms(1) in \<open>simp add: valid_tensor_def\<close>)
  have g1: "?h ! ?r1 = ?A" and g2: "?h ! ?r2 = ?B" by (simp_all add: nth_append)
  have f: "u_forward Subtract ?h [?r1, ?r2] [] = (Inl AssertionError, ?h)"
    using Subtract_forward_mismatch [of ?h ?r1 ?r2] assms(2)
    by (simp only: g1 g2 Subtract_def op_class.simps) simp
  show ?thesis by (rule TensorOp_new_forward_raises [OF c f])
qed

lemma Add_new_mismatch:
  fixes s :: "'a::plus state"
  assumes "valid_tensor s t2" "shape (tensor_array s t1) \<noteq> shape (tensor_array s t2)"
  shows "TensorOp_new Add [PyTensor t1, PyTensor t2] [] s =
     (Inl AssertionError,
      s\<lparr>op_count := op_count s + 1,
        arrays := arrays s @ [tensor_array s t1, tensor_array s t1,
                              tensor_array s t2, tensor_array s t2]\<rparr>)"
proof -
  let ?A = "tensor_array s t1" and ?B = "tensor_array s t2"
  let ?h = "arrays s @ [?A, ?A, ?B, ?B]"
  let ?r1 = "Suc (length (arrays s))" and ?r2 = "Suc (Suc (Suc (length (arrays s))))"
  have c: "copy_inputs [PyTensor t1, PyTensor t2] (tensors s) (arrays s) = (Inr [?r1, ?r2], ?h)"
    unfolding tensor_array_def
    by (rule copy_inputs_2) (use assms(1) in \<open>simp add: valid_tensor_def\<close>)
  have g1: "?h ! ?r1 = ?A" and g2: "?h ! ?r2 = ?B" by (simp_all add: nth_append)
  have f: "u_forward Add ?h [?r1, ?r2] [] = (Inl AssertionError, ?h)"
    using Add_forward_mismatch [of ?h ?r1 ?r2] assms(2)
    by (simp only: g1 g2 Add_def op_class.simps) simp
  show ?thesis by (rule TensorOp_new_forward_raises [OF c f])
qed

lemma MatMul_forward_inner_mismatch:
  fixes h :: "'a::semiring_0 heap"
  assumes "shape (h ! r1) \<noteq> []" "shape (h ! r2) \<noteq> []"
      and "last (shape (h ! r1)) \<noteq>
             (if length (shape (h ! r2)) = 1 then hd (shape (h ! r2))
              else last (butlast (shape (h ! r2))))"
  shows "MatMul_forward h [r1, r2] [] =
           (if last (shape (h ! r1)) \<noteq> hd (shape (h ! r2)) then Inl AssertionError
            else Inl ValueError, h)"
  using assms
  by (simp add: MatMul_forward_def bind_args_2 on_ok_def np_matmul_inner_mismatch)

lemma MatMul_new_mismatch:
  fixes s :: "'a::semiring_0 state"
  assumes "valid_tensor s t2"
      and "shape (tensor_array s t1) \<noteq> []" "shape (tensor_array s t2) \<noteq> []"
      and "last (shape (tensor_array s t1)) \<noteq>
             (if length (shape (tensor_array s t2)) = 1 then hd (shape (tensor_array s t2))
              else last (butlast (shape (tensor_array s t2))))"
  shows "TensorOp_new MatMul [PyTensor t1, PyTensor t2] [] s =
     (if last (shape (tensor_array s t1)) \<noteq> hd (shape (tensor_array s t2))
      then Inl AssertionError else Inl ValueError,
      s\<lparr>op_count := op_count s + 1,
        arrays := arrays s @ [tensor_array s t1, tensor_array s t1,
                              tensor_array s t2, tensor_array s t2]\<rparr>)"
proof -
  let ?A = "tensor_array s t1" and ?B = "tensor_array s t2"
  let ?h = "arrays s @ [?A, ?A, ?B, ?B]"
  let ?r1 = "Suc (length (arrays s))" and ?r2 = "Suc (Suc (Suc (length (arrays s))))"
  let ?e = "if last (shape ?A) \<noteq> hd (shape ?B) then AssertionError else ValueError"
  have c: "copy_inputs [PyTensor t1, PyTensor t2] (tensors s) (arrays s) = (Inr [?r1, ?r2], ?h)"
    unfolding tensor_array_def
    by (rule copy_inputs_2) (use assms(1) in \<open>simp add: valid_tensor_def\<close>)
  have g1: "?h ! ?r1 = ?A" and g2: "?h ! ?r2 = ?B" by (simp_all add: nth_append)
  have f: "u_forward MatMul ?h [?r1, ?r2] [] = (Inl ?e, ?h)"
    using MatMul_forward_inner_mismatch [of ?h ?r1 ?r2] assms(2-4)
    by (simp only: g1 g2 MatMul_def op_class.simps) simp
  show ?thesis
    using TensorOp_new_forward_raises [OF c f] by simp
qed

lemma Mean_new_empty:
  fixes s :: "'a::{inverse,semiring_1} state"
  assumes "np_size (tensor_array s t) = 0"
  shows "TensorOp_new Mean [PyTensor t] [] s =
     (Inl AssertionError,
      s\<lparr>op_count := op_count s + 1,
        arrays := arrays s @ [tensor_array s t, tensor_array s t]\<rparr>)"
proof -
  let ?A = "tensor_array s t"
  let ?n = "length (arrays s)"
  let ?h = "arrays s @ [?A, ?A]"
  have c: "copy_inputs [PyTensor t] (tensors s) (arrays s) = (Inr [Suc ?n], ?h)"
    unfolding tensor_array_def by (rule copy_inputs_1)
  have g: "?h ! Suc ?n = ?A" by (simp add: nth_append)
  have f: "u_forward Mean ?h [Suc ?n] [] = (Inl AssertionError, ?h)"
    using Mean_forward_empty [of ?h "Suc ?n"] assms by (simp only: g Mean_def op_class.simps)
  show ?thesis by (rule TensorOp_new_forward_raises [OF c f])
qed

text \<open>
  C6, as the code has it. When the precondition of a built-in operation is violated
  (\<^verbatim>\<open>Add\<close> or \<^verbatim>\<open>Subtract\<close> on arrays of different shapes; \<^verbatim>\<open>MatMul\<close> on arrays, neither a
  scalar, where the last extent of the first differs from the extent numpy multiplies it with;
  \<^verbatim>\<open>Mean\<close> on an array without elements), the invocation fails during the forward computation:
  with the \<^verbatim>\<open>AssertionError\<close> of the operation, or for \<^verbatim>\<open>MatMul\<close> with numpy's \<^verbatim>\<open>ValueError\<close> when
  the assertion, which compares with the first extent of the second array, lets the arrays
  through. Nothing is registered in the graph, no Tensor is made or changed and the arrays
  that existed keep their contents. The counter of Ops, which is process-wide state, has
  moved by one all the same: the Op took its id before the forward computation ran.
\<close>

theorem precondition_violation_registers_nothing:
  fixes s :: "'a::{inverse,ring_1} state"
  assumes "valid_tensor s t1" and "valid_tensor s t2"
  shows "(shape (tensor_array s t1) \<noteq> shape (tensor_array s t2) \<longrightarrow>
            fst (TensorOp_new Add [PyTensor t1, PyTensor t2] [] s) = Inl AssertionError
            \<and> fails_unregistered (TensorOp_new Add [PyTensor t1, PyTensor t2] [] s) s
            \<and> fst (TensorOp_new Subtract [PyTensor t1, PyTensor t2] [] s) = Inl AssertionError
            \<and> fails_unregistered (TensorOp_new Subtract [PyTensor t1, PyTensor t2] [] s) s)
         \<and> (shape (tensor_array s t1) \<noteq> [] \<and> shape (tensor_array s t2) \<noteq> []
             \<and> last (shape (tensor_array s t1)) \<noteq>
                 (if length (shape (tensor_array s t2)) = 1 then hd (shape (tensor_array s t2))
                  else last (butlast (shape (tensor_array s t2)))) \<longrightarrow>
            fst (TensorOp_new MatMul [PyTensor t1, PyTensor t2] [] s) =
              (if last (shape (tensor_array s t1)) \<noteq> hd (shape (tensor_array s t2))
               then Inl AssertionError else Inl ValueError)
            \<and> fails_unregistered (TensorOp_new MatMul [PyTensor t1, PyTensor t2] [] s) s)
         \<and> (np_size (tensor_array s t1) = 0 \<longrightarrow>
            fst (TensorOp_new Mean [PyTensor t1] [] s) = Inl AssertionError
            \<and> fails_unregistered (TensorOp_new Mean [PyTensor t1] [] s) s)"
proof -
  let ?A = "tensor_array s t1" and ?B = "tensor_array s t2"
  have a: "fst (TensorOp_new Add [PyTensor t1, PyTensor t2] [] s) = Inl AssertionError
            \<and> fails_unregistered (TensorOp_new Add [PyTensor t1, PyTensor t2] [] s) s
            \<and> fst (TensorOp_new Subtract [PyTensor t1, PyTensor t2] [] s) = Inl AssertionError
            \<and> fails_unregistered (TensorOp_new Subtract [PyTensor t1, PyTensor t2] [] s) s"
    if "shape ?A \<noteq> shape ?B"
    unfolding Add_new_mismatch [OF assms(2) that] Subtract_new_mismatch [OF assms(2) that]
    by (simp add: fails_unregistered_def)
  have m: "fst (TensorOp_new MatMul [PyTensor t1, PyTensor t2] [] s) =
              (if last (shape ?A) \<noteq> hd (shape ?B) then Inl AssertionError else Inl ValueError)
            \<and> fails_unregistered (TensorOp_new MatMul [PyTensor t1, PyTensor t2] [] s) s"
    if "shape ?A \<noteq> []" "shape ?B \<noteq> []"
       "last (shape ?A) \<noteq> (if length (shape ?B) = 1 then hd (shape ?B)
                               else last (butlast (shape ?B)))"
    unfolding MatMul_new_mismatch [OF assms(2) that]
    by (simp add: fails_unregistered_def)
  have e: "fst (TensorOp_new Mean [PyTensor t1] [] s) = Inl AssertionError
            \<and> fails_unregistered (TensorOp_new Mean [PyTensor t1] [] s) s"
    if "np_size ?A = 0"
    unfolding Mean_new_empty [OF that] by (simp add: fails_unregistered_def)
  show ?thesis using a m e by blast
qed

text \<open>
  C6, as stated, fails: \<^verbatim>\<open>Add\<close> on arrays of the shapes (2,2) and (2,3) raises its
  \<^verbatim>\<open>AssertionError\<close>, and the counter of Ops, 0 before, is 1 after.
\<close>

theorem failed_Add_advances_op_count:
  "fst (TensorOp_new Add [PyTensor 0, PyTensor 2] [] demo_state) = Inl AssertionError
   \<and> op_count demo_state = 0
   \<and> op_count (snd (TensorOp_new Add [PyTensor 0, PyTensor 2] [] demo_state)) = 1"
proof -
  have ne: "shape (tensor_array demo_state 0) \<noteq> shape (tensor_array demo_state 2)"
    by (simp add: demo_tensor_array)
  show ?thesis
    unfolding Add_new_mismatch [OF demo_valid(3) ne] by (simp add: demo_state_fields)
qed

lemma demo_shapes:
  "shape (tensor_array demo_state 0) \<noteq> shape (tensor_array demo_state 2)"
  "shape (tensor_array demo_state 2) \<noteq> []"
  "shape (tensor_array demo_state 0) \<noteq> []"
  "last (shape (tensor_array demo_state 2)) \<noteq>
     (if length (shape (tensor_array demo_state 0)) = 1 then hd (shape (tensor_array demo_state 0))
      else last (butlast (shape (tensor_array demo_state 0))))"
  by (simp_all add: demo_tensor_array)

theorem precondition_violation_registers_nothing_witness:
  "valid_tensor demo_state 0 \<and> valid_tensor demo_state 2 \<and> valid_tensor demo_state 3
   \<and> shape (tensor_array demo_state 0) \<noteq> shape (tensor_array demo_state 2)
   \<and> fst (TensorOp_new Add [PyTensor 0, PyTensor 2] [] demo_state) = Inl AssertionError
   \<and> graph (snd (TensorOp_new Add [PyTensor 0, PyTensor 2] [] demo_state)) = graph demo_state
   \<and> tensors (snd (TensorOp_new Add [PyTensor 0, PyTensor 2] [] demo_state)) = tensors demo_state
   \<and> take 7 (arrays (snd (TensorOp_new Add [PyTensor 0, PyTensor 2] [] demo_state)))
        = arrays demo_state
   \<and> op_count (snd (TensorOp_new Add [PyTensor 0, PyTensor 2] [] demo_state)) = 1
   \<and> fst (TensorOp_new Subtract [PyTensor 0, PyTensor 2] [] demo_state) = Inl AssertionError
   \<and> fails_unregistered (TensorOp_new Subtract [PyTensor 0, PyTensor 2] [] demo_state) demo_state
   \<and> fst (TensorOp_new MatMul [PyTensor 2, PyTensor 0] [] demo_state) = Inl AssertionError
   \<and> fails_unregistered (TensorOp_new MatMul [PyTensor 2, PyTensor 0] [] demo_state) demo_state
   \<and> np_size (tensor_array demo_state 3) = 0
   \<and> fst (TensorOp_new Mean [PyTensor 3] [] demo_state) = Inl AssertionError
   \<and> fails_unregistered (TensorOp_new Mean [PyTensor 3] [] demo_state) demo_state"
proof -
  note a = precondition_violation_registers_nothing [OF demo_valid(1) demo_valid(3)]
  note m = precondition_violation_registers_nothing [OF demo_valid(3) demo_valid(1)]
  note e = precondition_violation_registers_nothing [OF demo_valid(4) demo_valid(4)]
  from a demo_shapes(1)
  have a1: "fst (TensorOp_new Add [PyTensor 0, PyTensor 2] [] demo_state) = Inl AssertionError"
    and a2: "fails_unregistered (TensorOp_new Add [PyTensor 0, PyTensor 2] [] demo_state) demo_state"
    and a3: "fst (TensorOp_new Subtract [PyTensor 0, PyTensor 2] [] demo_state) = Inl AssertionError"
    and a4: "fails_unregistered (TensorOp_new Subtract [PyTensor 0, PyTensor 2] [] demo_state)
               demo_state"
    by blast+
  from a2
  have a5: "graph (snd (TensorOp_new Add [PyTensor 0, PyTensor 2] [] demo_state)) = graph demo_state"
    and a6: "tensors (snd (TensorOp_new Add [PyTensor 0, PyTensor 2] [] demo_state))
               = tensors demo_state"
    and a7: "take 7 (arrays (snd (TensorOp_new Add [PyTensor 0, PyTensor 2] [] demo_state)))
               = arrays demo_state"
    and a8: "op_count (snd (TensorOp_new Add [PyTensor 0, PyTensor 2] [] demo_state)) = 1"
    by (simp_all add: fails_unregistered_def demo_state_fields)
  from m demo_shapes(2,3,4)
  have "fst (TensorOp_new MatMul [PyTensor 2, PyTensor 0] [] demo_state) =
          (if last (shape (tensor_array demo_state 2)) \<noteq> hd (shape (tensor_array demo_state 0))
           then Inl AssertionError else Inl ValueError)"
    and m2: "fails_unregistered (TensorOp_new MatMul [PyTensor 2, PyTensor 0] [] demo_state)
               demo_state"
    by blast+
  then have m1: "fst (TensorOp_new MatMul [PyTensor 2, PyTensor 0] [] demo_state)
                   = Inl AssertionError"
    by (simp add: demo_tensor_array)
  from e demo_sizes(1)
  have e1: "fst (TensorOp_new Mean [PyTensor 3] [] demo_state) = Inl AssertionError"
    and e2: "fails_unregistered (TensorOp_new Mean [PyTensor 3] [] demo_state) demo_state"
    by blast+
  show ?thesis
    using demo_valid(1,3,4) demo_shapes(1) a1 a5 a6 a7 a8 a3 a4 m1 m2 demo_sizes(1) e1 e2
    by (intro conjI)
qed

section \<open>The inputs of an invocation\<close>

lemma bind_args_length: "bind_args params defaults pos kw = Inr vs \<Longrightarrow> length vs = length params"
  by (auto simp: bind_args_def Let_def split: if_splits)

lemma kw_refs_member:
  "(k, v) \<in> set kw \<Longrightarrow> a \<in> set (refs v) \<Longrightarrow> a \<in> set (kw_refs kw)"
  by (auto simp: kw_refs_def)

lemma bind_args_refs:
  assumes "bind_args params defaults (map PyArray args) kw = Inr vs"
      and "list_all (\<lambda>(k, v). refs v = []) defaults"
      and "v \<in> set vs" and "a \<in> set (refs v)"
  shows "a \<in> set args \<or> a \<in> set (kw_refs kw)"
proof -
  let ?rest = "drop (length args) params"
  let ?pick = "\<lambda>p. case map_of kw p of Some v \<Rightarrow> v | None \<Rightarrow> the (map_of defaults p)"
  from assms(1) have vs: "vs = map PyArray args @ map ?pick ?rest"
    and nomiss: "\<not> list_ex (\<lambda>p. map_of kw p = None \<and> map_of defaults p = None) ?rest"
    by (auto simp: bind_args_def Let_def split: if_splits)
  from assms(3) vs consider (pos) "v \<in> set (map PyArray args)" | (rest) "v \<in> set (map ?pick ?rest)"
    by auto
  then show ?thesis
  proof cases
    case pos
    with assms(4) show ?thesis by auto
  next
    case rest
    then obtain p where p: "p \<in> set ?rest" and v: "v = ?pick p" by auto
    show ?thesis
    proof (cases "map_of kw p")
      case (Some w)
      with v have "(p, v) \<in> set kw" by (simp add: map_of_SomeD)
      with assms(4) show ?thesis by (blast intro: kw_refs_member)
    next
      case None
      with p nomiss obtain w where w: "map_of defaults p = Some w"
        by (auto simp: list_ex_iff)
      with None v have "(p, v) \<in> set defaults" by (simp add: map_of_SomeD)
      with assms(2) have "refs v = []" by (auto simp: list_all_iff)
      with assms(4) show ?thesis by simp
    qed
  qed
qed

lemma local_forwardI:
  assumes "\<And>h args kw r h'. u_forward cls h args kw = (r, h') \<Longrightarrow>
             (\<exists>ext. h' = h @ ext) \<and>
             (\<forall>output c. r = Inr (output, c) \<longrightarrow>
                length h \<le> output \<and>
                (\<forall>a \<in> set (refs c). a \<in> set args \<or> a \<in> set (kw_refs kw) \<or> length h \<le> a))"
  shows "local_forward cls"
  unfolding local_forward_def
proof (intro allI impI)
  fix h args kw r h'
  assume eq: "u_forward cls h args kw = (r, h')"
  from assms [OF eq] obtain ext where ext: "h' = h @ ext"
    and out: "\<forall>output c. r = Inr (output, c) \<longrightarrow>
                length h \<le> output \<and>
                (\<forall>a \<in> set (refs c). a \<in> set args \<or> a \<in> set (kw_refs kw) \<or> length h \<le> a)"
    by blast
  show "length h \<le> length h' \<and>
        (\<forall>a < length h. a \<notin> set args \<and> a \<notin> set (kw_refs kw) \<longrightarrow> h' ! a = h ! a) \<and>
        (\<forall>output c. r = Inr (output, c) \<longrightarrow>
           (\<forall>a \<in> set (output # refs c). a \<in> set args \<or> a \<in> set (kw_refs kw) \<or> length h \<le> a))"
    using ext out by (auto simp: nth_append)
qed

lemma refs_shape_tuple: "refs (shape_tuple ds) = []"
  by (induction ds) (simp_all add: shape_tuple_def)

lemma as_array_refs: "as_array v = Inr r \<Longrightarrow> r \<in> set (refs v)"
  by (cases v) simp_all



lemma local_Add: "local_forward Add"
proof (rule local_forwardI)
  fix h args kw r h'
  assume eq: "u_forward (Add :: 'a op_class) h args kw = (r, h')"
  then show "(\<exists>ext. h' = h @ ext) \<and>
        (\<forall>output c. r = Inr (output, c) \<longrightarrow>
           length h \<le> output \<and>
           (\<forall>a \<in> set (refs c). a \<in> set args \<or> a \<in> set (kw_refs kw) \<or> length h \<le> a))"
    by (auto simp: Add_def Add_forward_def on_ok_def alloc_def split: sum.splits if_splits)
qed

lemma local_Subtract: "local_forward Subtract"
proof (rule local_forwardI)
  fix h args kw r h'
  assume eq: "u_forward (Subtract :: 'a op_class) h args kw = (r, h')"
  then show "(\<exists>ext. h' = h @ ext) \<and>
        (\<forall>output c. r = Inr (output, c) \<longrightarrow>
           length h \<le> output \<and>
           (\<forall>a \<in> set (refs c). a \<in> set args \<or> a \<in> set (kw_refs kw) \<or> length h \<le> a))"
    by (auto simp: Subtract_def Subtract_forward_def on_ok_def alloc_def
             split: sum.splits if_splits)
qed

lemma local_Exp: "local_forward Exp"
proof (rule local_forwardI)
  fix h args kw r h'
  assume eq: "u_forward (Exp :: 'a op_class) h args kw = (r, h')"
  then show "(\<exists>ext. h' = h @ ext) \<and>
        (\<forall>output c. r = Inr (output, c) \<longrightarrow>
           length h \<le> output \<and>
           (\<forall>a \<in> set (refs c). a \<in> set args \<or> a \<in> set (kw_refs kw) \<or> length h \<le> a))"
    by (auto simp: Exp_def Exp_forward_def on_ok_def alloc_def
             split: sum.splits pyobj.splits)
qed

lemma local_Sum: "local_forward Sum"
proof (rule local_forwardI)
  fix h args kw r h'
  assume eq: "u_forward (Sum :: 'a op_class) h args kw = (r, h')"
  then show "(\<exists>ext. h' = h @ ext) \<and>
        (\<forall>output c. r = Inr (output, c) \<longrightarrow>
           length h \<le> output \<and>
           (\<forall>a \<in> set (refs c). a \<in> set args \<or> a \<in> set (kw_refs kw) \<or> length h \<le> a))"
    by (auto simp: Sum_def Sum_forward_def on_ok_def alloc_def refs_shape_tuple
             split: sum.splits pyobj.splits)
qed

lemma local_Mean: "local_forward Mean"
proof (rule local_forwardI)
  fix h args kw r h'
  assume eq: "u_forward (Mean :: 'a op_class) h args kw = (r, h')"
  then show "(\<exists>ext. h' = h @ ext) \<and>
        (\<forall>output c. r = Inr (output, c) \<longrightarrow>
           length h \<le> output \<and>
           (\<forall>a \<in> set (refs c). a \<in> set args \<or> a \<in> set (kw_refs kw) \<or> length h \<le> a))"
    by (auto simp: Mean_def Mean_forward_def on_ok_def alloc_def refs_shape_tuple Let_def
             split: sum.splits if_splits)
qed

lemma local_MatMul: "local_forward MatMul"
proof (rule local_forwardI)
  fix h args kw r h'
  assume eq: "u_forward (MatMul :: 'a op_class) h args kw = (r, h')"
  let ?b = "bind_args [''tensor_data_1'', ''tensor_data_2''] [] (map PyArray args) kw
              :: error + 'a pyobj list"
  show "(\<exists>ext. h' = h @ ext) \<and>
        (\<forall>output c. r = Inr (output, c) \<longrightarrow>
           length h \<le> output \<and>
           (\<forall>a \<in> set (refs c). a \<in> set args \<or> a \<in> set (kw_refs kw) \<or> length h \<le> a))"
  proof (cases ?b)
    case (Inl e)
    with eq show ?thesis by (auto simp: MatMul_def MatMul_forward_def on_ok_def)
  next
    case (Inr vs)
    have len: "length vs = 2" using bind_args_length [OF Inr] by simp
    have src: "a \<in> set args \<or> a \<in> set (kw_refs kw)"
      if "as_array (vs ! i) = Inr a" "i < 2" for a i
      by (rule bind_args_refs [OF Inr _ _ as_array_refs [OF that(1)]]) (use len that(2) in simp_all)
    from eq Inr src [of 0] src [of 1] show ?thesis
      by (auto simp: MatMul_def MatMul_forward_def on_ok_def alloc_def
               split: sum.splits if_splits)
  qed
qed





end
